theory Spec2Isabelle
  imports Complex_Main
begin

section \<open>Python values and exceptions\<close>

text \<open>
  The simulators compute with Python numbers.  Floats are embedded as exact reals: every
  theorem below is a statement about the formulas in exact arithmetic; rounding and
  overflow of the floats are not modelled.  Integers (\<open>years\<close>, \<open>mortgage_years\<close>, the
  loop variable \<open>month\<close>) are unbounded \<open>int\<close>s.  The exceptions the modelled code can
  raise are values of \<open>py_error\<close>; a function that can raise returns
  \<open>py_error + result\<close>.
\<close>

datatype py_error = ZeroDivisionError | IndexError | KeyError | NameError

text \<open>True division \<open>a / b\<close>.\<close>

definition py_div :: "real \<Rightarrow> real \<Rightarrow> py_error + real" where
  "py_div a b = (if b = 0 then Inl ZeroDivisionError else Inr (a / b))"

text \<open>\<open>b ** n\<close> for a float base and an int exponent; \<open>0.0 ** -1\<close> raises.\<close>

definition py_pow_int :: "real \<Rightarrow> int \<Rightarrow> py_error + real" where
  "py_pow_int b n =
     (if 0 \<le> n then Inr (b ^ nat n)
      else if b = 0 then Inl ZeroDivisionError
      else Inr (1 / b ^ nat (- n)))"

text \<open>
  \<open>b ** e\<close> for a float exponent \<open>e \<ge> 0\<close> (the elapsed years).  \<open>b ** 0.0\<close> is \<open>1.0\<close> for
  every base, also for \<open>0.0\<close>, where HOL's \<open>powr\<close> gives 0.  For a negative base and a
  fractional exponent Python produces a complex number, which the embedding does not
  represent: the definition is meant for \<open>b \<ge> 0\<close>, that is an appreciation rate of at
  least -100 percent, and no theorem below depends on its value elsewhere.
\<close>

definition py_pow :: "real \<Rightarrow> real \<Rightarrow> real" where
  "py_pow b e = (if e = 0 then 1 else b powr e)"

text \<open>
  Positional indexing \<open>xs[i]\<close> and \<open>df.iloc[i]\<close>: a negative index counts from the end, an
  index outside the sequence raises \<open>IndexError\<close>.
\<close>

definition py_index :: "'a list \<Rightarrow> int \<Rightarrow> py_error + 'a" where
  "py_index xs i =
     (if 0 \<le> i \<and> i < int (length xs) then Inr (xs ! nat i)
      else if i < 0 \<and> - int (length xs) \<le> i then Inr (xs ! nat (int (length xs) + i))
      else Inl IndexError)"

section \<open>tax\_utils.py\<close>

text \<open>
  \<open>calculate_capital_gains_tax(gain, holding_period_years, tax_rate_short=0.25,
  tax_rate_long=0.15)\<close>; the two defaults are the constants below.
\<close>

definition tax_rate_short_default :: real where
  "tax_rate_short_default = 25 / 100"

definition tax_rate_long_default :: real where
  "tax_rate_long_default = 15 / 100"

definition calculate_capital_gains_tax :: "real \<Rightarrow> real \<Rightarrow> real \<Rightarrow> real \<Rightarrow> real" where
  "calculate_capital_gains_tax gain holding_period_years tax_rate_short tax_rate_long =
     (if gain \<le> 0 then 0
      else if holding_period_years < 1 then gain * tax_rate_short
      else gain * tax_rate_long)"


section \<open>mortgage\_utils.py\<close>

text \<open>
  \<open>calculate_monthly_payment\<close> and \<open>calculate_amortization_schedule\<close>.  The copies of the
  two functions in homeownership\_simulation.py and rental\_simulation.py have the same
  body (\<open>num_payments = years * 12\<close> instead of \<open>int(years * 12)\<close>, the same for an int).
  The parameter \<open>principal\<close> is written \<open>principal'\<close> (the plain name is a constant of HOL).
\<close>

definition calculate_monthly_payment :: "real \<Rightarrow> real \<Rightarrow> int \<Rightarrow> py_error + real" where
  "calculate_monthly_payment principal' annual_rate years =
     (if annual_rate = 0 then py_div principal' (of_int (years * 12))
      else
        let monthly_rate = annual_rate / 12;
            num_payments = years * 12
        in case py_pow_int (1 + monthly_rate) num_payments of
             Inl e \<Rightarrow> Inl e
           | Inr growth \<Rightarrow> py_div (principal' * (monthly_rate * growth)) (growth - 1))"

record amort_entry =
  am_month :: int
  am_payment :: real
  am_principal :: real
  am_interest :: real
  am_balance :: real

text \<open>
  The loop \<open>for month in range(1, num_payments + 1)\<close>: the months still to run, the running
  \<open>balance\<close> (not clamped) and the \<open>schedule\<close> built so far.
\<close>

fun amortization_loop ::
  "real \<Rightarrow> real \<Rightarrow> int list \<Rightarrow> real \<Rightarrow> amort_entry list \<Rightarrow> amort_entry list" where
  "amortization_loop monthly_payment monthly_rate [] balance schedule = schedule"
| "amortization_loop monthly_payment monthly_rate (month # rest) balance schedule =
     (let interest_payment = balance * monthly_rate;
          principal_payment = monthly_payment - interest_payment;
          new_balance = balance - principal_payment
      in amortization_loop monthly_payment monthly_rate rest new_balance
           (schedule @
            [\<lparr>am_month = month, am_payment = monthly_payment, am_principal = principal_payment,
              am_interest = interest_payment, am_balance = max 0 new_balance\<rparr>]))"

definition calculate_amortization_schedule ::
  "real \<Rightarrow> real \<Rightarrow> int \<Rightarrow> py_error + amort_entry list" where
  "calculate_amortization_schedule principal' annual_rate years =
     (case calculate_monthly_payment principal' annual_rate years of
        Inl e \<Rightarrow> Inl e
      | Inr monthly_payment \<Rightarrow>
          Inr (amortization_loop monthly_payment (annual_rate / 12) [1..years * 12] principal' []))"

text \<open>
  Balance after \<open>k\<close> payments of \<open>M\<close> at monthly rate \<open>r\<close> from balance \<open>b\<close>, and the
  schedule entry the loop appends in its iteration \<open>j\<close> (counted from 0): the two describe
  what \<open>amortization_loop\<close> computes and are used to reason about it.
\<close>

fun running_balance :: "real \<Rightarrow> real \<Rightarrow> real \<Rightarrow> nat \<Rightarrow> real" where
  "running_balance M r b 0 = b"
| "running_balance M r b (Suc k) = running_balance M r b k * (1 + r) - M"

definition schedule_entry :: "real \<Rightarrow> real \<Rightarrow> real \<Rightarrow> int list \<Rightarrow> nat \<Rightarrow> amort_entry" where
  "schedule_entry M r b ms j =
     \<lparr>am_month = ms ! j, am_payment = M, am_principal = M - running_balance M r b j * r,
      am_interest = running_balance M r b j * r,
      am_balance = max 0 (running_balance M r b (Suc j))\<rparr>"

section \<open>The parameter dictionary\<close>

text \<open>
  Every simulator takes a dict \<open>params\<close> and reads the keys it needs with
  \<open>params['key']\<close>.  The record has one field per key read by a modelled simulator; a
  simulator ignores the fields it does not read, as it ignores further keys of the dict.
  A missing key (\<open>KeyError\<close>) is excluded by the type.  \<open>dividend_tax_rate\<close> is read with
  \<open>params.get('dividend_tax_rate', 0.15)\<close>, so it may be absent.
\<close>

record params =
  p_purchase_price :: real
  p_down_payment_pct :: real
  p_mortgage_rate :: real
  p_mortgage_years :: int
  p_closing_costs_pct :: real
  p_selling_cost_pct :: real
  p_appreciation_rate :: real
  p_property_tax_rate :: real
  p_hoa_monthly :: real
  p_insurance_monthly :: real
  p_maintenance_rate :: real
  p_tax_bracket :: real
  p_monthly_rent :: real
  p_vacancy_rate :: real
  p_rent_increase_rate :: real
  p_initial_investment :: real
  p_monthly_contribution :: real
  p_stock_return_rate :: real
  p_dividend_yield :: real
  p_dividend_tax_rate :: "real option"
  p_years :: int

text \<open>
  The block every ownership simulator repeats:
  \<open>if month <= len(amortization): ... = amortization.iloc[month - 1][...] else: ... = 0\<close>.
  Every month loop calls it with \<open>month \<ge> 1\<close>, so under the guard the position \<open>month - 1\<close> lies
  in the table.  The four values are returned as one entry.
\<close>

definition mortgage_of_month :: "amort_entry list \<Rightarrow> int \<Rightarrow> amort_entry" where
  "mortgage_of_month amortization month =
     (if month \<le> int (length amortization) then amortization ! nat (month - 1)
      else \<lparr>am_month = month, am_payment = 0, am_principal = 0, am_interest = 0, am_balance = 0\<rparr>)"

section \<open>homeownership\_simulation.py\<close>

subsection \<open>simulate\_homeownership (buy and live)\<close>

record home_row =
  h_month :: int
  h_year :: int
  h_property_value :: real
  h_mortgage_payment :: real
  h_principal_payment :: real
  h_interest_payment :: real
  h_remaining_balance :: real
  h_property_tax_monthly :: real
  h_hoa :: real
  h_insurance :: real
  h_maintenance :: real
  h_total_costs_before_tax :: real
  h_monthly_tax_benefit :: real
  h_true_monthly_cost :: real
  h_unrecoverable :: real
  h_cumulative_unrecoverable :: real
  h_cumulative_tax_benefits :: real
  h_cumulative_true_cost :: real
  h_equity :: real
  h_net_proceeds :: real

record home_summary =
  hs_initial_payment :: real
  hs_final_property_value :: real
  hs_final_equity :: real
  hs_selling_costs :: real
  hs_final_net_proceeds :: real
  hs_total_unrecoverable_costs :: real
  hs_total_tax_benefits :: real
  hs_total_true_cost :: real
  hs_total_principal_paid :: real

record home_result =
  h_monthly_df :: "home_row list"
  h_summary :: home_summary

text \<open>One iteration of the month loop: the dict appended to \<open>monthly_data\<close>.\<close>

definition home_month :: "params \<Rightarrow> amort_entry list \<Rightarrow> int \<Rightarrow> home_row list \<Rightarrow> home_row" where
  "home_month params amortization month monthly_data =
     (let closing_costs = p_purchase_price params * p_closing_costs_pct params;
          year_num = (month - 1) div 12 + 1;
          years_elapsed = real_of_int (month - 1) / 12;
          property_value =
            p_purchase_price params * py_pow (1 + p_appreciation_rate params) years_elapsed;
          mortgage_payment = am_payment (mortgage_of_month amortization month);
          principal_payment = am_principal (mortgage_of_month amortization month);
          interest_payment = am_interest (mortgage_of_month amortization month);
          remaining_balance = am_balance (mortgage_of_month amortization month);
          property_tax_monthly = (property_value * p_property_tax_rate params) / 12;
          maintenance_monthly = (property_value * p_maintenance_rate params) / 12;
          monthly_tax_benefit = (interest_payment + property_tax_monthly) * p_tax_bracket params;
          total_costs_before_tax =
            mortgage_payment + property_tax_monthly + p_insurance_monthly params
              + p_hoa_monthly params + maintenance_monthly;
          true_monthly_cost = total_costs_before_tax - monthly_tax_benefit;
          unrecoverable0 =
            interest_payment + property_tax_monthly + p_insurance_monthly params
              + p_hoa_monthly params + maintenance_monthly;
          unrecoverable = (if month = 1 then unrecoverable0 + closing_costs else unrecoverable0);
          cumulative_unrecoverable =
            (if monthly_data \<noteq> [] then sum_list (map h_unrecoverable monthly_data) + unrecoverable
             else unrecoverable);
          cumulative_tax_benefits =
            (if monthly_data \<noteq> []
             then sum_list (map h_monthly_tax_benefit monthly_data) + monthly_tax_benefit
             else monthly_tax_benefit);
          cumulative_true_cost =
            (if monthly_data \<noteq> []
             then sum_list (map h_true_monthly_cost monthly_data) + true_monthly_cost
             else true_monthly_cost);
          equity = property_value - remaining_balance;
          selling_costs = property_value * p_selling_cost_pct params;
          net_proceeds = property_value - remaining_balance - selling_costs
      in \<lparr>h_month = month, h_year = year_num, h_property_value = property_value,
           h_mortgage_payment = mortgage_payment, h_principal_payment = principal_payment,
           h_interest_payment = interest_payment, h_remaining_balance = remaining_balance,
           h_property_tax_monthly = property_tax_monthly, h_hoa = p_hoa_monthly params,
           h_insurance = p_insurance_monthly params, h_maintenance = maintenance_monthly,
           h_total_costs_before_tax = total_costs_before_tax,
           h_monthly_tax_benefit = monthly_tax_benefit, h_true_monthly_cost = true_monthly_cost,
           h_unrecoverable = unrecoverable, h_cumulative_unrecoverable = cumulative_unrecoverable,
           h_cumulative_tax_benefits = cumulative_tax_benefits,
           h_cumulative_true_cost = cumulative_true_cost, h_equity = equity,
           h_net_proceeds = net_proceeds\<rparr>)"

text \<open>\<open>for month in range(1, months + 1): ... monthly_data.append({...})\<close>\<close>

fun home_loop :: "params \<Rightarrow> amort_entry list \<Rightarrow> int list \<Rightarrow> home_row list \<Rightarrow> home_row list" where
  "home_loop params amortization [] monthly_data = monthly_data"
| "home_loop params amortization (month # rest) monthly_data =
     home_loop params amortization rest
       (monthly_data @ [home_month params amortization month monthly_data])"

text \<open>
  The summary reads the last row with \<open>df.iloc[-1]\<close>, which raises \<open>IndexError\<close> on the
  empty table.
\<close>

definition simulate_homeownership :: "params \<Rightarrow> py_error + home_result" where
  "simulate_homeownership params =
     (let down_payment = p_purchase_price params * p_down_payment_pct params;
          closing_costs = p_purchase_price params * p_closing_costs_pct params;
          loan_amount = p_purchase_price params - down_payment;
          initial_investment = down_payment + closing_costs
      in case calculate_amortization_schedule loan_amount (p_mortgage_rate params)
                (p_mortgage_years params) of
           Inl e \<Rightarrow> Inl e
         | Inr amortization \<Rightarrow>
             let months = p_years params * 12;
                 df = home_loop params amortization [1..months] []
             in case py_index df (- 1) of
                  Inl e \<Rightarrow> Inl e
                | Inr final \<Rightarrow>
                    let final_property_value = h_property_value final;
                        final_remaining_balance = h_remaining_balance final;
                        final_selling_costs = final_property_value * p_selling_cost_pct params;
                        final_net_proceeds =
                          final_property_value - final_remaining_balance - final_selling_costs;
                        final_cumulative_cost = h_cumulative_true_cost final + final_selling_costs
                    in Inr \<lparr>h_monthly_df = df,
                             h_summary =
                               \<lparr>hs_initial_payment = initial_investment,
                                hs_final_property_value = final_property_value,
                                hs_final_equity = final_property_value - final_remaining_balance,
                                hs_selling_costs = final_selling_costs,
                                hs_final_net_proceeds = final_net_proceeds,
                                hs_total_unrecoverable_costs = h_cumulative_unrecoverable final,
                                hs_total_tax_benefits = h_cumulative_tax_benefits final,
                                hs_total_true_cost = final_cumulative_cost,
                                hs_total_principal_paid =
                                  sum_list (map h_principal_payment df)\<rparr>\<rparr>)"

subsection \<open>simulate\_rent\_and\_invest\<close>

record invest_row =
  ri_month :: int
  ri_year :: int
  ri_portfolio_value :: real
  ri_monthly_rent :: real
  ri_cumulative_rent :: real
  ri_monthly_contribution :: real
  ri_monthly_dividend :: real
  ri_monthly_operating_income :: real
  ri_cumulative_operating_income :: real
  ri_dividend_tax :: real
  ri_cumulative_dividend_tax :: real
  ri_cumulative_cost :: real
  ri_net_proceeds :: real

record invest_summary =
  ris_initial_payment :: real
  ris_final_portfolio_value :: real
  ris_total_contributions :: real
  ris_total_rent_paid :: real
  ris_total_dividends :: real
  ris_total_dividend_tax :: real
  ris_total_cost :: real
  ris_final_net_proceeds :: real

record invest_result =
  ri_monthly_df :: "invest_row list"
  ri_summary :: invest_summary

text \<open>The variables the loop updates from month to month.\<close>

record invest_state =
  st_portfolio_value :: real
  st_cumulative_rent :: real
  st_cumulative_dividends :: real
  st_cumulative_dividend_tax :: real
  st_annual_dividends :: real
  st_monthly_data :: "invest_row list"

text \<open>
  One iteration.  \<open>int(years_elapsed)\<close> truncates; \<open>month \<ge> 1\<close> in the loop, so it is the
  floor and a non-negative exponent.  \<open>homeownership_true_monthly_costs[month - 1]\<close> raises
  \<open>IndexError\<close> past the end of the list.
\<close>

definition rent_and_invest_month ::
  "params \<Rightarrow> real list \<Rightarrow> int \<Rightarrow> invest_state \<Rightarrow> py_error + invest_state" where
  "rent_and_invest_month params homeownership_true_monthly_costs month st =
     (let year_num = (month - 1) div 12 + 1;
          month_in_year = (month - 1) mod 12 + 1;
          years_elapsed = real_of_int (month - 1) / 12;
          current_rent =
            p_monthly_rent params * (1 + p_rent_increase_rate params) ^ nat \<lfloor>years_elapsed\<rfloor>;
          cumulative_rent = st_cumulative_rent st + current_rent
      in case py_index homeownership_true_monthly_costs (month - 1) of
           Inl e \<Rightarrow> Inl e
         | Inr homeownership_cost \<Rightarrow>
             let monthly_contribution = homeownership_cost - current_rent;
                 monthly_return = p_stock_return_rate params / 12;
                 portfolio_value =
                   st_portfolio_value st * (1 + monthly_return) + monthly_contribution;
                 monthly_dividend = portfolio_value * (p_dividend_yield params / 12);
                 annual_dividends = st_annual_dividends st + monthly_dividend;
                 cumulative_dividends = st_cumulative_dividends st + monthly_dividend;
                 monthly_operating_income = monthly_dividend;
                 dividend_tax =
                   (if month_in_year = 12 then annual_dividends * p_tax_bracket params else 0);
                 cumulative_dividend_tax =
                   (if month_in_year = 12 then st_cumulative_dividend_tax st + dividend_tax
                    else st_cumulative_dividend_tax st);
                 annual_dividends_next = (if month_in_year = 12 then 0 else annual_dividends);
                 net_proceeds = portfolio_value;
                 cumulative_cost = cumulative_rent + cumulative_dividend_tax;
                 cumulative_operating_income =
                   (if st_monthly_data st \<noteq> []
                    then sum_list (map ri_monthly_operating_income (st_monthly_data st))
                           + monthly_operating_income
                    else monthly_operating_income)
             in Inr \<lparr>st_portfolio_value = portfolio_value,
                      st_cumulative_rent = cumulative_rent,
                      st_cumulative_dividends = cumulative_dividends,
                      st_cumulative_dividend_tax = cumulative_dividend_tax,
                      st_annual_dividends = annual_dividends_next,
                      st_monthly_data = st_monthly_data st @
                        [\<lparr>ri_month = month, ri_year = year_num,
                          ri_portfolio_value = portfolio_value, ri_monthly_rent = current_rent,
                          ri_cumulative_rent = cumulative_rent,
                          ri_monthly_contribution = monthly_contribution,
                          ri_monthly_dividend = monthly_dividend,
                          ri_monthly_operating_income = monthly_operating_income,
                          ri_cumulative_operating_income = cumulative_operating_income,
                          ri_dividend_tax = dividend_tax,
                          ri_cumulative_dividend_tax = cumulative_dividend_tax,
                          ri_cumulative_cost = cumulative_cost,
                          ri_net_proceeds = net_proceeds\<rparr>]\<rparr>)"

fun rent_and_invest_loop ::
  "params \<Rightarrow> real list \<Rightarrow> int list \<Rightarrow> invest_state \<Rightarrow> py_error + invest_state" where
  "rent_and_invest_loop params costs [] st = Inr st"
| "rent_and_invest_loop params costs (month # rest) st =
     (case rent_and_invest_month params costs month st of
        Inl e \<Rightarrow> Inl e
      | Inr st' \<Rightarrow> rent_and_invest_loop params costs rest st')"

definition simulate_rent_and_invest :: "params \<Rightarrow> real list \<Rightarrow> py_error + invest_result" where
  "simulate_rent_and_invest params homeownership_true_monthly_costs =
     (let months = p_years params * 12;
          initial =
            \<lparr>st_portfolio_value = p_initial_investment params, st_cumulative_rent = 0,
             st_cumulative_dividends = 0, st_cumulative_dividend_tax = 0,
             st_annual_dividends = 0, st_monthly_data = []\<rparr>
      in case rent_and_invest_loop params homeownership_true_monthly_costs [1..months] initial of
           Inl e \<Rightarrow> Inl e
         | Inr st \<Rightarrow>
             let df = st_monthly_data st
             in case py_index df (- 1) of
                  Inl e \<Rightarrow> Inl e
                | Inr final \<Rightarrow>
                    Inr \<lparr>ri_monthly_df = df,
                         ri_summary =
                           \<lparr>ris_initial_payment = p_initial_investment params,
                            ris_final_portfolio_value = ri_portfolio_value final,
                            ris_total_contributions =
                              sum_list (map ri_monthly_contribution df),
                            ris_total_rent_paid = ri_cumulative_rent final,
                            ris_total_dividends = st_cumulative_dividends st,
                            ris_total_dividend_tax = st_cumulative_dividend_tax st,
                            ris_total_cost = ri_cumulative_cost final,
                            ris_final_net_proceeds = ri_net_proceeds final\<rparr>\<rparr>)"

section \<open>rental\_simulation.py\<close>

subsection \<open>simulate\_rental\_property (buy and rent out)\<close>

record rental_row =
  r_month :: int
  r_year :: int
  r_property_value :: real
  r_mortgage_payment :: real
  r_principal_payment :: real
  r_interest_payment :: real
  r_remaining_balance :: real
  r_property_tax_monthly :: real
  r_hoa :: real
  r_insurance :: real
  r_maintenance :: real
  r_unrecoverable :: real
  r_monthly_tax_benefit :: real
  r_rental_income :: real
  r_true_cost :: real
  r_cumulative_true_cost :: real
  r_monthly_operating_income :: real
  r_cumulative_operating_income :: real
  r_net_proceeds :: real

record rental_summary =
  rs_initial_payment :: real
  rs_final_property_value :: real
  rs_selling_costs :: real
  rs_final_net_proceeds :: real
  rs_total_true_cost :: real
  rs_total_operating_income :: real
  rs_total_rental_income :: real

record rental_result =
  r_monthly_df :: "rental_row list"
  r_summary :: rental_summary

text \<open>
  One iteration.  The loop also adds to \<open>annual_rental_income\<close>, \<open>annual_interest\<close> and
  \<open>annual_property_tax\<close>, which nothing reads; they are left out.
\<close>

definition rental_month :: "params \<Rightarrow> amort_entry list \<Rightarrow> int \<Rightarrow> rental_row list \<Rightarrow> rental_row" where
  "rental_month params amortization month monthly_data =
     (let closing_costs = p_purchase_price params * p_closing_costs_pct params;
          year_num = (month - 1) div 12 + 1;
          years_elapsed = real_of_int (month - 1) / 12;
          property_value =
            p_purchase_price params * py_pow (1 + p_appreciation_rate params) years_elapsed;
          mortgage_payment = am_payment (mortgage_of_month amortization month);
          principal_payment = am_principal (mortgage_of_month amortization month);
          interest_payment = am_interest (mortgage_of_month amortization month);
          remaining_balance = am_balance (mortgage_of_month amortization month);
          property_tax_monthly = (property_value * p_property_tax_rate params) / 12;
          maintenance_monthly = (property_value * p_maintenance_rate params) / 12;
          unrecoverable0 =
            interest_payment + property_tax_monthly + p_hoa_monthly params
              + p_insurance_monthly params + maintenance_monthly;
          unrecoverable = (if month = 1 then unrecoverable0 + closing_costs else unrecoverable0);
          monthly_tax_benefit = (interest_payment + property_tax_monthly) * p_tax_bracket params;
          rental_income = p_monthly_rent params * (1 - p_vacancy_rate params);
          true_cost = unrecoverable - rental_income - monthly_tax_benefit;
          monthly_operating_income = rental_income;
          net_proceeds = property_value - remaining_balance;
          cumulative_true_cost =
            (if monthly_data \<noteq> [] then sum_list (map r_true_cost monthly_data) + true_cost
             else true_cost);
          cumulative_operating_income =
            (if monthly_data \<noteq> []
             then sum_list (map r_monthly_operating_income monthly_data) + monthly_operating_income
             else monthly_operating_income)
      in \<lparr>r_month = month, r_year = year_num, r_property_value = property_value,
           r_mortgage_payment = mortgage_payment, r_principal_payment = principal_payment,
           r_interest_payment = interest_payment, r_remaining_balance = remaining_balance,
           r_property_tax_monthly = property_tax_monthly, r_hoa = p_hoa_monthly params,
           r_insurance = p_insurance_monthly params, r_maintenance = maintenance_monthly,
           r_unrecoverable = unrecoverable, r_monthly_tax_benefit = monthly_tax_benefit,
           r_rental_income = rental_income, r_true_cost = true_cost,
           r_cumulative_true_cost = cumulative_true_cost,
           r_monthly_operating_income = monthly_operating_income,
           r_cumulative_operating_income = cumulative_operating_income,
           r_net_proceeds = net_proceeds\<rparr>)"

fun rental_loop ::
  "params \<Rightarrow> amort_entry list \<Rightarrow> int list \<Rightarrow> rental_row list \<Rightarrow> rental_row list" where
  "rental_loop params amortization [] monthly_data = monthly_data"
| "rental_loop params amortization (month # rest) monthly_data =
     rental_loop params amortization rest
       (monthly_data @ [rental_month params amortization month monthly_data])"

text \<open>The selling costs are \<open>final_property_value * 0.06\<close>; no selling-cost key is read.\<close>

definition simulate_rental_property :: "params \<Rightarrow> py_error + rental_result" where
  "simulate_rental_property params =
     (let down_payment = p_purchase_price params * p_down_payment_pct params;
          closing_costs = p_purchase_price params * p_closing_costs_pct params;
          loan_amount = p_purchase_price params - down_payment;
          initial_investment = down_payment + closing_costs
      in case calculate_amortization_schedule loan_amount (p_mortgage_rate params)
                (p_mortgage_years params) of
           Inl e \<Rightarrow> Inl e
         | Inr amortization \<Rightarrow>
             let months = p_years params * 12;
                 df = rental_loop params amortization [1..months] []
             in case py_index df (- 1) of
                  Inl e \<Rightarrow> Inl e
                | Inr final \<Rightarrow>
                    let final_property_value = r_property_value final;
                        final_remaining_balance = r_remaining_balance final;
                        selling_costs = final_property_value * (6 / 100);
                        final_net_proceeds =
                          final_property_value - selling_costs - final_remaining_balance;
                        final_cumulative_cost = r_cumulative_true_cost final + selling_costs
                    in Inr \<lparr>r_monthly_df = df,
                             r_summary =
                               \<lparr>rs_initial_payment = initial_investment,
                                rs_final_property_value = final_property_value,
                                rs_selling_costs = selling_costs,
                                rs_final_net_proceeds = final_net_proceeds,
                                rs_total_true_cost = final_cumulative_cost,
                                rs_total_operating_income = r_cumulative_operating_income final,
                                rs_total_rental_income =
                                  sum_list (map r_rental_income df)\<rparr>\<rparr>)"

subsection \<open>simulate\_stock\_investment (stock-only side of buy and rent)\<close>

record stock_row =
  s_month :: int
  s_year :: int
  s_portfolio_value :: real
  s_monthly_contribution :: real
  s_monthly_dividend :: real
  s_monthly_operating_income :: real
  s_cumulative_operating_income :: real
  s_dividend_tax :: real
  s_cumulative_cost :: real
  s_net_proceeds :: real

record stock_summary =
  ss_initial_payment :: real
  ss_final_portfolio_value :: real
  ss_total_contributions :: real
  ss_total_dividends :: real
  ss_total_dividend_tax :: real
  ss_final_net_proceeds :: real

record stock_result =
  s_monthly_df :: "stock_row list"
  s_summary :: stock_summary

record stock_state =
  sst_portfolio_value :: real
  sst_cumulative_dividends :: real
  sst_cumulative_dividend_tax :: real
  sst_annual_dividends :: real
  sst_monthly_data :: "stock_row list"

definition stock_month ::
  "params \<Rightarrow> real list \<Rightarrow> int \<Rightarrow> stock_state \<Rightarrow> py_error + stock_state" where
  "stock_month params rental_monthly_expenses month st =
     (let year_num = (month - 1) div 12 + 1;
          month_in_year = (month - 1) mod 12 + 1
      in case py_index rental_monthly_expenses (month - 1) of
           Inl e \<Rightarrow> Inl e
         | Inr monthly_contribution \<Rightarrow>
             let monthly_return = p_stock_return_rate params / 12;
                 portfolio_value =
                   sst_portfolio_value st * (1 + monthly_return) + monthly_contribution;
                 monthly_dividend = portfolio_value * (p_dividend_yield params / 12);
                 annual_dividends = sst_annual_dividends st + monthly_dividend;
                 cumulative_dividends = sst_cumulative_dividends st + monthly_dividend;
                 monthly_operating_income = monthly_dividend;
                 dividend_tax =
                   (if month_in_year = 12 then annual_dividends * p_tax_bracket params else 0);
                 cumulative_dividend_tax =
                   (if month_in_year = 12 then sst_cumulative_dividend_tax st + dividend_tax
                    else sst_cumulative_dividend_tax st);
                 annual_dividends_next = (if month_in_year = 12 then 0 else annual_dividends);
                 net_proceeds = portfolio_value;
                 cumulative_cost = cumulative_dividend_tax;
                 cumulative_operating_income =
                   (if sst_monthly_data st \<noteq> []
                    then sum_list (map s_monthly_operating_income (sst_monthly_data st))
                           + monthly_operating_income
                    else monthly_operating_income)
             in Inr \<lparr>sst_portfolio_value = portfolio_value,
                      sst_cumulative_dividends = cumulative_dividends,
                      sst_cumulative_dividend_tax = cumulative_dividend_tax,
                      sst_annual_dividends = annual_dividends_next,
                      sst_monthly_data = sst_monthly_data st @
                        [\<lparr>s_month = month, s_year = year_num,
                          s_portfolio_value = portfolio_value,
                          s_monthly_contribution = monthly_contribution,
                          s_monthly_dividend = monthly_dividend,
                          s_monthly_operating_income = monthly_operating_income,
                          s_cumulative_operating_income = cumulative_operating_income,
                          s_dividend_tax = dividend_tax, s_cumulative_cost = cumulative_cost,
                          s_net_proceeds = net_proceeds\<rparr>]\<rparr>)"

fun stock_loop ::
  "params \<Rightarrow> real list \<Rightarrow> int list \<Rightarrow> stock_state \<Rightarrow> py_error + stock_state" where
  "stock_loop params expenses [] st = Inr st"
| "stock_loop params expenses (month # rest) st =
     (case stock_month params expenses month st of
        Inl e \<Rightarrow> Inl e
      | Inr st' \<Rightarrow> stock_loop params expenses rest st')"

definition simulate_stock_investment :: "params \<Rightarrow> real list \<Rightarrow> py_error + stock_result" where
  "simulate_stock_investment params rental_monthly_expenses =
     (let months = p_years params * 12;
          initial =
            \<lparr>sst_portfolio_value = p_initial_investment params, sst_cumulative_dividends = 0,
             sst_cumulative_dividend_tax = 0, sst_annual_dividends = 0, sst_monthly_data = []\<rparr>
      in case stock_loop params rental_monthly_expenses [1..months] initial of
           Inl e \<Rightarrow> Inl e
         | Inr st \<Rightarrow>
             let df = sst_monthly_data st
             in case py_index df (- 1) of
                  Inl e \<Rightarrow> Inl e
                | Inr final \<Rightarrow>
                    Inr \<lparr>s_monthly_df = df,
                         s_summary =
                           \<lparr>ss_initial_payment = p_initial_investment params,
                            ss_final_portfolio_value = s_portfolio_value final,
                            ss_total_contributions = sum_list (map s_monthly_contribution df),
                            ss_total_dividends = sst_cumulative_dividends st,
                            ss_total_dividend_tax = sst_cumulative_dividend_tax st,
                            ss_final_net_proceeds = s_net_proceeds final\<rparr>\<rparr>)"

section \<open>simulation.py (the earlier engine)\<close>

text \<open>
  simulation.py defines functions of the same names as the two modules above; its
  definitions carry the prefix \<open>simulation_py\<close>.  A name that a function body reads and
  never assigns is looked up in the module's namespace: the imports and the top-level
  \<open>def\<close>s of simulation.py, listed here in source order (no builtin is called
  \<open>monthly_operating_income\<close>).  A name bound nowhere raises \<open>NameError\<close>.
\<close>

datatype py_object = Module string | Function string



text \<open>\<open>series.cumsum()\<close>\<close>

definition cumsum :: "real list \<Rightarrow> real list" where
  "cumsum xs = map (\<lambda>k. sum_list (take (Suc k) xs)) [0..<length xs]"

subsection \<open>simulate\_homeownership of simulation.py\<close>

record legacy_home_row =
  lh_month :: int
  lh_year :: real
  lh_property_value :: real
  lh_mortgage_payment :: real
  lh_principal_payment :: real
  lh_interest_payment :: real
  lh_property_tax :: real
  lh_hoa :: real
  lh_insurance :: real
  lh_maintenance :: real
  lh_total_monthly_cost :: real
  lh_unrecoverable_cost :: real
  lh_remaining_balance :: real
  lh_equity :: real
  lh_monthly_operating_income :: py_object
  lh_cumulative_operating_income :: real
  lh_cumulative_unrecoverable :: real
  lh_net_worth :: real



record legacy_home_state =
  lst_cumulative_unrecoverable :: real
  lst_cumulative_operating_income :: real
  lst_monthly_expenses :: "real list"
  lst_monthly_data :: "legacy_home_row list"

text \<open>The local variables of one iteration, as they stand before the row dict is built.\<close>

record legacy_home_locals =
  lv_year :: real
  lv_property_value :: real
  lv_mortgage_payment :: real
  lv_principal_payment :: real
  lv_interest_payment :: real
  lv_remaining_balance :: real
  lv_property_tax :: real
  lv_maintenance :: real
  lv_total_monthly_cost :: real
  lv_unrecoverable :: real
  lv_cumulative_unrecoverable :: real
  lv_total_monthly_expense :: real
  lv_monthly_tax_benefit :: real
  lv_cumulative_operating_income :: real
  lv_equity :: real
  lv_net_worth :: real

definition simulation_py_home_locals ::
  "params \<Rightarrow> amort_entry list \<Rightarrow> int \<Rightarrow> legacy_home_state \<Rightarrow> legacy_home_locals" where
  "simulation_py_home_locals params amortization month st =
     (let down_payment = p_purchase_price params * p_down_payment_pct params;
          closing_costs = p_purchase_price params * p_closing_costs_pct params;
          year = real_of_int (month - 1) / 12;
          property_value = p_purchase_price params * py_pow (1 + p_appreciation_rate params) year;
          mortgage_payment = am_payment (mortgage_of_month amortization month);
          principal_payment = am_principal (mortgage_of_month amortization month);
          interest_payment = am_interest (mortgage_of_month amortization month);
          remaining_balance = am_balance (mortgage_of_month amortization month);
          property_tax = (property_value * p_property_tax_rate params) / 12;
          maintenance = (property_value * p_maintenance_rate params) / 12;
          total_monthly_cost =
            mortgage_payment + property_tax + p_hoa_monthly params + p_insurance_monthly params
              + maintenance;
          unrecoverable0 =
            interest_payment + property_tax + p_hoa_monthly params + p_insurance_monthly params
              + maintenance;
          unrecoverable = (if month = 1 then unrecoverable0 + closing_costs else unrecoverable0);
          cumulative_unrecoverable = lst_cumulative_unrecoverable st + unrecoverable;
          total_monthly_expense = unrecoverable + principal_payment;
          monthly_tax_benefit = (interest_payment + property_tax) * (1 - p_tax_bracket params);
          cumulative_operating_income = lst_cumulative_operating_income st + monthly_tax_benefit;
          equity = property_value - remaining_balance;
          net_worth =
            (if month = 1 then down_payment
             else property_value - remaining_balance - closing_costs + cumulative_operating_income)
      in \<lparr>lv_year = year, lv_property_value = property_value,
           lv_mortgage_payment = mortgage_payment, lv_principal_payment = principal_payment,
           lv_interest_payment = interest_payment, lv_remaining_balance = remaining_balance,
           lv_property_tax = property_tax, lv_maintenance = maintenance,
           lv_total_monthly_cost = total_monthly_cost, lv_unrecoverable = unrecoverable,
           lv_cumulative_unrecoverable = cumulative_unrecoverable,
           lv_total_monthly_expense = total_monthly_expense,
           lv_monthly_tax_benefit = monthly_tax_benefit,
           lv_cumulative_operating_income = cumulative_operating_income, lv_equity = equity,
           lv_net_worth = net_worth\<rparr>)"




subsection \<open>simulate\_stock\_investment of simulation.py\<close>

record legacy_stock_row =
  ls_month :: int
  ls_year :: real
  ls_rent :: real
  ls_monthly_contribution :: real
  ls_portfolio_value :: real
  ls_monthly_dividend :: real
  ls_dividend_tax :: real
  ls_net_dividend :: real
  ls_cumulative_rent :: real
  ls_cumulative_operating_income :: real
  ls_net_worth :: real

record legacy_stock_summary =
  lss_initial_investment :: real
  lss_total_contributed :: real
  lss_final_portfolio_value :: real
  lss_total_rent_paid :: real
  lss_total_operating_income :: real
  lss_net_proceeds :: real
  lss_roi :: real
  lss_annualized_return :: real

record legacy_stock_result =
  ls_monthly_df :: "legacy_stock_row list"
  ls_cumulative_contributions :: "real list"
  ls_summary :: legacy_stock_summary

record legacy_stock_state =
  lsst_portfolio_value :: real
  lsst_cumulative_rent :: real
  lsst_cumulative_operating_income :: real
  lsst_monthly_data :: "legacy_stock_row list"

text \<open>
  The three optional arguments default to \<open>None\<close>.  The dividend tax is
  \<open>monthly_dividend * dividend_tax_rate\<close> in every iteration; the function keeps no annual
  accumulator.  Both list reads are guarded by \<open>month <= len(...)\<close>.
\<close>

definition simulation_py_stock_month ::
  "params \<Rightarrow> real list option \<Rightarrow> real list option \<Rightarrow> real list option \<Rightarrow> int
     \<Rightarrow> legacy_stock_state \<Rightarrow> legacy_stock_state" where
  "simulation_py_stock_month params homeownership_monthly_expenses rental_monthly_expenses
       rental_income_monthly month st =
     (let dividend_tax_rate =
            (case p_dividend_tax_rate params of None \<Rightarrow> 15 / 100 | Some x \<Rightarrow> x);
          use_dynamic_contributions =
            (homeownership_monthly_expenses \<noteq> None
             \<or> (rental_monthly_expenses \<noteq> None \<and> rental_income_monthly \<noteq> None));
          is_rental_scenario =
            (rental_monthly_expenses \<noteq> None \<and> rental_income_monthly \<noteq> None);
          year = real_of_int (month - 1) / 12;
          rent = p_monthly_rent params * (1 + p_rent_increase_rate params) ^ nat \<lfloor>year\<rfloor>;
          cumulative_rent = lsst_cumulative_rent st + rent;
          actual_contribution =
            (if use_dynamic_contributions then
               (if is_rental_scenario \<and> month \<le> int (length (the rental_monthly_expenses))
                then the rental_monthly_expenses ! nat (month - 1)
                else if \<not> is_rental_scenario
                        \<and> month \<le> int (length (the homeownership_monthly_expenses))
                then the homeownership_monthly_expenses ! nat (month - 1) - rent
                else p_monthly_contribution params)
             else p_monthly_contribution params);
          monthly_return = p_stock_return_rate params / 12;
          portfolio_value = lsst_portfolio_value st * (1 + monthly_return) + actual_contribution;
          monthly_dividend = portfolio_value * (p_dividend_yield params / 12);
          dividend_tax = monthly_dividend * dividend_tax_rate;
          net_dividend = monthly_dividend - dividend_tax;
          cumulative_operating_income = lsst_cumulative_operating_income st + net_dividend;
          net_worth =
            (if month = 1 then p_initial_investment params
             else portfolio_value + cumulative_operating_income)
      in \<lparr>lsst_portfolio_value = portfolio_value, lsst_cumulative_rent = cumulative_rent,
           lsst_cumulative_operating_income = cumulative_operating_income,
           lsst_monthly_data = lsst_monthly_data st @
             [\<lparr>ls_month = month, ls_year = year, ls_rent = rent,
               ls_monthly_contribution = actual_contribution,
               ls_portfolio_value = portfolio_value, ls_monthly_dividend = monthly_dividend,
               ls_dividend_tax = dividend_tax, ls_net_dividend = net_dividend,
               ls_cumulative_rent = cumulative_rent,
               ls_cumulative_operating_income = cumulative_operating_income,
               ls_net_worth = net_worth\<rparr>]\<rparr>)"

fun simulation_py_stock_loop ::
  "params \<Rightarrow> real list option \<Rightarrow> real list option \<Rightarrow> real list option \<Rightarrow> int list
     \<Rightarrow> legacy_stock_state \<Rightarrow> legacy_stock_state" where
  "simulation_py_stock_loop params h r ri [] st = st"
| "simulation_py_stock_loop params h r ri (month # rest) st =
     simulation_py_stock_loop params h r ri rest (simulation_py_stock_month params h r ri month st)"

definition simulation_py_simulate_stock_investment ::
  "params \<Rightarrow> real list option \<Rightarrow> real list option \<Rightarrow> real list option
     \<Rightarrow> py_error + legacy_stock_result" where
  "simulation_py_simulate_stock_investment params homeownership_monthly_expenses
       rental_monthly_expenses rental_income_monthly =
     (let months = p_years params * 12;
          initial =
            \<lparr>lsst_portfolio_value = p_initial_investment params, lsst_cumulative_rent = 0,
             lsst_cumulative_operating_income = 0, lsst_monthly_data = []\<rparr>;
          st = simulation_py_stock_loop params homeownership_monthly_expenses
                 rental_monthly_expenses rental_income_monthly [1..months] initial;
          df = lsst_monthly_data st
      in if df = [] then Inl KeyError
         else
           let cumulative_contributions =
                 map (\<lambda>c. p_initial_investment params + c)
                   (cumsum (map ls_monthly_contribution df));
               final_portfolio = ls_portfolio_value (last df);
               total_contributed = last cumulative_contributions;
               total_rent_paid = ls_cumulative_rent (last df)
           in Inr \<lparr>ls_monthly_df = df, ls_cumulative_contributions = cumulative_contributions,
                    ls_summary =
                      \<lparr>lss_initial_investment = p_initial_investment params,
                       lss_total_contributed = total_contributed,
                       lss_final_portfolio_value = final_portfolio,
                       lss_total_rent_paid = total_rent_paid,
                       lss_total_operating_income = ls_cumulative_operating_income (last df),
                       lss_net_proceeds = final_portfolio,
                       lss_roi =
                         (if total_contributed > 0
                          then ((final_portfolio - total_contributed) / total_contributed) * 100
                          else 0),
                       lss_annualized_return =
                         (if total_contributed > 0 \<and> p_years params > 0
                          then (py_pow (final_portfolio / total_contributed)
                                  (1 / real_of_int (p_years params)) - 1) * 100
                          else 0)\<rparr>\<rparr>)"

section \<open>pages/2\_Buy\_and\_Live.py: the coupling of the two strategies\<close>


section \<open>A concrete scenario\<close>

text \<open>
  A 30-year purchase: price 500000, 20 percent down, 6.5 percent mortgage over 30 years,
  3 percent closing costs, 3 percent appreciation, tax bracket 25 percent; rent 2500
  rising 3 percent a year, stocks returning 10 percent with a 2 percent dividend yield.
  It is the input of the worked examples below.
\<close>

definition example_params :: params where
  "example_params =
     \<lparr>p_purchase_price = 500000, p_down_payment_pct = 20 / 100, p_mortgage_rate = 65 / 1000,
      p_mortgage_years = 30, p_closing_costs_pct = 3 / 100, p_selling_cost_pct = 6 / 100,
      p_appreciation_rate = 3 / 100, p_property_tax_rate = 12 / 1000, p_hoa_monthly = 200,
      p_insurance_monthly = 150, p_maintenance_rate = 1 / 100, p_tax_bracket = 25 / 100,
      p_monthly_rent = 2500, p_vacancy_rate = 5 / 100, p_rent_increase_rate = 3 / 100,
      p_initial_investment = 115000, p_monthly_contribution = 500,
      p_stock_return_rate = 10 / 100, p_dividend_yield = 2 / 100, p_dividend_tax_rate = None,
      p_years = 30\<rparr>"

section \<open>Properties of the amortization schedule\<close>

lemma running_balance_shift:
  "running_balance M r (b * (1 + r) - M) k = running_balance M r b (Suc k)"
  by (induction k) simp_all

lemma amortization_loop_map:
  "amortization_loop M r ms b sched = sched @ map (schedule_entry M r b ms) [0..<length ms]"
proof (induction ms arbitrary: b sched)
  case Nil
  then show ?case by simp
next
  case (Cons m rest)
  have eq: "b - (M - b * r) = b * (1 + r) - M" by (simp add: algebra_simps)
  have tl: "map (schedule_entry M r (b * (1 + r) - M) rest) [0..<length rest]
          = map (\<lambda>j. schedule_entry M r b (m # rest) (Suc j)) [0..<length rest]"
    by (rule map_cong) (simp_all add: schedule_entry_def running_balance_shift del: running_balance.simps)
  show ?case
    by (simp add: Let_def Cons.IH eq tl map_upt_Suc del: upt_Suc)
      (simp add: schedule_entry_def algebra_simps)
qed



lemma running_balance_zero_rate:
  "running_balance M 0 P k = P - real k * M"
  by (induction k) (simp_all add: algebra_simps)



lemma growth_gt_one:
  fixes rate :: real
  assumes "0 < rate" "0 < years"
  shows "1 < (1 + rate / 12) ^ nat (years * 12)"
  using assms by (intro one_less_power) simp_all

lemma monthly_payment_positive_rate:
  assumes "0 < rate" "0 < years"
  shows "calculate_monthly_payment P rate years
       = Inr (P * (rate / 12 * (1 + rate / 12) ^ nat (years * 12)) / ((1 + rate / 12) ^ nat (years * 12) - 1))"
proof -
  have "(1 + rate / 12) ^ nat (years * 12) \<noteq> 1"
    using growth_gt_one[OF assms] by linarith
  with assms show ?thesis
    by (simp add: calculate_monthly_payment_def py_pow_int_def py_div_def Let_def)
qed

lemma monthly_payment_zero_rate:
  assumes "0 < years"
  shows "calculate_monthly_payment P 0 years = Inr (P / real_of_int (years * 12))"
  using assms by (simp add: calculate_monthly_payment_def py_div_def)

lemma schedule_positive_rate:
  assumes "0 < rate" "0 < years"
  shows "calculate_amortization_schedule P rate years
           = Inr (map (schedule_entry
                (P * (rate / 12 * (1 + rate / 12) ^ nat (years * 12)) / ((1 + rate / 12) ^ nat (years * 12) - 1))
                (rate / 12) P [1..years * 12]) [0..<nat (years * 12)])"
  using monthly_payment_positive_rate[OF assms(1,2), of P] assms(2)
  by (simp add: calculate_amortization_schedule_def amortization_loop_map)


lemma schedule_zero_rate:
  assumes "0 < years"
  shows "calculate_amortization_schedule P 0 years
           = Inr (map (schedule_entry (P / real_of_int (years * 12)) 0 P [1..years * 12])
                    [0..<nat (years * 12)])"
  using monthly_payment_zero_rate[OF assms, of P] assms
  by (simp add: calculate_amortization_schedule_def amortization_loop_map)







section \<open>Capital gains tax\<close>

text \<open>
  C8.  \<open>calculate_capital_gains_tax\<close> returns 0 for every gain \<open>\<le> 0\<close>; for a positive gain
  it returns gain times the short-term rate when the holding period is below 1 year and
  gain times the long-term rate otherwise; a holding period of exactly 1 year is taxed at
  the long-term rate.
\<close>

theorem capital_gains_tax_cases:
  "(gain \<le> 0 \<longrightarrow> calculate_capital_gains_tax gain holding_period_years tax_rate_short tax_rate_long = 0)
   \<and> (0 < gain \<and> holding_period_years < 1 \<longrightarrow>
        calculate_capital_gains_tax gain holding_period_years tax_rate_short tax_rate_long
          = gain * tax_rate_short)
   \<and> (0 < gain \<and> 1 \<le> holding_period_years \<longrightarrow>
        calculate_capital_gains_tax gain holding_period_years tax_rate_short tax_rate_long
          = gain * tax_rate_long)
   \<and> (0 < gain \<longrightarrow>
        calculate_capital_gains_tax gain 1 tax_rate_short tax_rate_long = gain * tax_rate_long)"
  by (simp add: calculate_capital_gains_tax_def)

theorem capital_gains_tax_cases_witness:
  "calculate_capital_gains_tax (- 5) 3 tax_rate_short_default tax_rate_long_default = 0
   \<and> calculate_capital_gains_tax 1000 (999 / 1000) tax_rate_short_default tax_rate_long_default = 250
   \<and> calculate_capital_gains_tax 1000 1 tax_rate_short_default tax_rate_long_default = 150
   \<and> calculate_capital_gains_tax 1000 7 tax_rate_short_default tax_rate_long_default = 150"
  using capital_gains_tax_cases[of "- 5" 3 tax_rate_short_default tax_rate_long_default]
    capital_gains_tax_cases[of 1000 "999 / 1000" tax_rate_short_default tax_rate_long_default]
    capital_gains_tax_cases[of 1000 7 tax_rate_short_default tax_rate_long_default]
  by (simp add: tax_rate_short_default_def tax_rate_long_default_def)


section \<open>Indexing, degenerate terms and the unbound name\<close>

lemma py_index_last: "xs \<noteq> [] \<Longrightarrow> py_index xs (- 1) = Inr (last xs)"
  by (cases xs rule: rev_cases) (simp_all add: py_index_def)

lemma py_index_empty: "py_index [] i = Inl IndexError"
  by (simp add: py_index_def)

lemma py_index_in_range:
  "0 \<le> i \<Longrightarrow> i < int (length xs) \<Longrightarrow> py_index xs i = Inr (xs ! nat i)"
  by (simp add: py_index_def)







lemma schedule_returns:
  assumes "1 \<le> years" "0 \<le> rate"
  shows "\<exists>amortization. calculate_amortization_schedule P rate years = Inr amortization
           \<and> int (length amortization) = years * 12"
proof (cases "rate = 0")
  case True
  with schedule_zero_rate[of years P] assms(1) show ?thesis by simp
next
  case False
  with assms(2) have "0 < rate" by simp
  with schedule_positive_rate[of rate years P] assms(1) show ?thesis by simp
qed




section \<open>The ownership simulators\<close>

lemma home_loop_append:
  "\<exists>rows. home_loop params amortization ms monthly_data = monthly_data @ rows
          \<and> length rows = length ms"
proof (induction ms arbitrary: monthly_data)
  case Nil
  then show ?case by simp
next
  case (Cons month rest)
  from Cons.IH[of "monthly_data @ [home_month params amortization month monthly_data]"]
  obtain rows where
    "home_loop params amortization rest
       (monthly_data @ [home_month params amortization month monthly_data])
     = (monthly_data @ [home_month params amortization month monthly_data]) @ rows"
    "length rows = length rest" by blast
  then show ?case by simp
qed

lemma home_loop_length:
  "length (home_loop params amortization ms monthly_data) = length monthly_data + length ms"
  using home_loop_append[of params amortization ms monthly_data] by auto

lemma home_loop_prefix:
  "take (length monthly_data) (home_loop params amortization ms monthly_data) = monthly_data"
  using home_loop_append[of params amortization ms monthly_data] by auto

lemma home_loop_nth:
  "j < length ms \<Longrightarrow>
   home_loop params amortization ms monthly_data ! (length monthly_data + j)
     = home_month params amortization (ms ! j)
         (take (length monthly_data + j) (home_loop params amortization ms monthly_data))"
proof (induction ms arbitrary: monthly_data j)
  case Nil
  then show ?case by simp
next
  case (Cons month rest)
  let ?row = "home_month params amortization month monthly_data"
  let ?res = "home_loop params amortization rest (monthly_data @ [?row])"
  show ?case
  proof (cases j)
    case 0
    from home_loop_prefix[of "monthly_data @ [?row]" params amortization rest]
    have pre: "take (Suc (length monthly_data)) ?res = monthly_data @ [?row]" by simp
    then have "take (length monthly_data) (take (Suc (length monthly_data)) ?res) = monthly_data"
      by simp
    then have t: "take (length monthly_data) ?res = monthly_data" by (simp add: min_def)
    have "length monthly_data < length ?res" by (simp add: home_loop_length)
    then have "?res ! length monthly_data = take (Suc (length monthly_data)) ?res ! length monthly_data"
      by simp
    also have "\<dots> = ?row" by (simp only: pre nth_append_length)
    finally show ?thesis using 0 t by simp
  next
    case (Suc j')
    with Cons.prems have "j' < length rest" by simp
    from Cons.IH[OF this, of "monthly_data @ [?row]"] Suc show ?thesis by simp
  qed
qed

lemma home_month_tax_benefit:
  "h_monthly_tax_benefit (home_month params amortization month monthly_data)
     = (h_interest_payment (home_month params amortization month monthly_data)
        + h_property_tax_monthly (home_month params amortization month monthly_data))
       * p_tax_bracket params"
  by (simp add: home_month_def Let_def)

lemma home_month_true_cost:
  "h_true_monthly_cost (home_month params amortization month monthly_data)
     = h_total_costs_before_tax (home_month params amortization month monthly_data)
       - h_monthly_tax_benefit (home_month params amortization month monthly_data)"
  by (simp add: home_month_def Let_def)

lemma simulate_homeownership_rows:
  assumes "simulate_homeownership params = Inr result"
  shows "\<exists>amortization.
           calculate_amortization_schedule
             (p_purchase_price params - p_purchase_price params * p_down_payment_pct params)
             (p_mortgage_rate params) (p_mortgage_years params) = Inr amortization
         \<and> h_monthly_df result = home_loop params amortization [1..p_years params * 12] []
         \<and> h_monthly_df result \<noteq> []"
  using assms
  by (auto simp: simulate_homeownership_def Let_def py_index_empty split: sum.splits)

lemma simulate_homeownership_row:
  assumes "simulate_homeownership params = Inr result" "k < length (h_monthly_df result)"
  shows "\<exists>amortization. h_monthly_df result ! k
           = home_month params amortization (int k + 1) (take k (h_monthly_df result))"
proof -
  from simulate_homeownership_rows[OF assms(1)] obtain amortization where
    df: "h_monthly_df result = home_loop params amortization [1..p_years params * 12] []" by blast
  from assms(2) have k: "k < length [1..p_years params * 12]"
    by (simp add: df home_loop_length)
  then have "[1..p_years params * 12] ! k = int k + 1" by (simp add: nth_upto)
  with home_loop_nth[OF k, of params amortization "[]"] show ?thesis
    by (auto simp: df)
qed

text \<open>
  C2 (amended).  In \<open>simulate_homeownership\<close> of homeownership\_simulation.py, for every
  month of a run, the monthly tax benefit is (interest payment + monthly property tax)
  times \<open>tax_bracket\<close>, and the true monthly cost is the total monthly costs minus that
  tax benefit.
\<close>

theorem home_tax_benefit_and_true_cost:
  assumes "simulate_homeownership params = Inr result" "k < length (h_monthly_df result)"
  shows "h_monthly_tax_benefit (h_monthly_df result ! k)
           = (h_interest_payment (h_monthly_df result ! k)
              + h_property_tax_monthly (h_monthly_df result ! k)) * p_tax_bracket params
       \<and> h_true_monthly_cost (h_monthly_df result ! k)
           = h_total_costs_before_tax (h_monthly_df result ! k)
             - h_monthly_tax_benefit (h_monthly_df result ! k)"
proof -
  from simulate_homeownership_row[OF assms] obtain amortization where
    "h_monthly_df result ! k
       = home_month params amortization (int k + 1) (take k (h_monthly_df result))" by blast
  then show ?thesis
    by (simp only: home_month_tax_benefit home_month_true_cost)
qed

lemma simulate_homeownership_returns:
  assumes "1 \<le> p_mortgage_years params" "0 \<le> p_mortgage_rate params" "1 \<le> p_years params"
  shows "\<exists>result. simulate_homeownership params = Inr result
           \<and> int (length (h_monthly_df result)) = p_years params * 12"
proof -
  from schedule_returns[OF assms(1,2)] obtain amortization where
    am: "calculate_amortization_schedule
           (p_purchase_price params - p_purchase_price params * p_down_payment_pct params)
           (p_mortgage_rate params) (p_mortgage_years params) = Inr amortization" by blast
  let ?df = "home_loop params amortization [1..p_years params * 12] []"
  have len: "int (length ?df) = p_years params * 12"
    using assms(3) by (simp add: home_loop_length)
  with assms(3) have "?df \<noteq> []" by auto
  then have "py_index ?df (- 1) = Inr (last ?df)" by (rule py_index_last)
  with am len show ?thesis
    by (simp add: simulate_homeownership_def Let_def)
qed

theorem home_tax_benefit_and_true_cost_witness:
  "\<exists>result. simulate_homeownership example_params = Inr result
     \<and> 0 < length (h_monthly_df result)
     \<and> h_monthly_tax_benefit (h_monthly_df result ! 0)
         = (h_interest_payment (h_monthly_df result ! 0)
            + h_property_tax_monthly (h_monthly_df result ! 0)) * (25 / 100)
     \<and> h_true_monthly_cost (h_monthly_df result ! 0)
         = h_total_costs_before_tax (h_monthly_df result ! 0)
           - h_monthly_tax_benefit (h_monthly_df result ! 0)"
proof -
  from simulate_homeownership_returns[of example_params] obtain result where
    r: "simulate_homeownership example_params = Inr result"
    and len: "int (length (h_monthly_df result)) = 360"
    by (auto simp: example_params_def)
  from len have k: "0 < length (h_monthly_df result)" by auto
  have "p_tax_bracket example_params = 25 / 100" by (simp add: example_params_def)
  with home_tax_benefit_and_true_cost[OF r k] r k show ?thesis by auto
qed

text \<open>
  C2 as stated does not hold of the live-in simulator of simulation.py: in its first
  iteration for the scenario above the interest is 400000 * 0.065 / 12 and the property
  tax 500, and the tax benefit it computes is their sum times \<open>1 - tax_bracket\<close>, 2000,
  not their sum times \<open>tax_bracket\<close>, 2000 / 3.
\<close>

theorem simulation_py_tax_benefit_counterexample:
  "lv_monthly_tax_benefit
     (simulation_py_home_locals example_params
        (projr (calculate_amortization_schedule 400000 (65 / 1000) 30)) 1
        \<lparr>lst_cumulative_unrecoverable = 0, lst_cumulative_operating_income = 0,
         lst_monthly_expenses = [], lst_monthly_data = []\<rparr>) = 2000
   \<and> (lv_interest_payment
        (simulation_py_home_locals example_params
           (projr (calculate_amortization_schedule 400000 (65 / 1000) 30)) 1
           \<lparr>lst_cumulative_unrecoverable = 0, lst_cumulative_operating_income = 0,
            lst_monthly_expenses = [], lst_monthly_data = []\<rparr>)
      + lv_property_tax
        (simulation_py_home_locals example_params
           (projr (calculate_amortization_schedule 400000 (65 / 1000) 30)) 1
           \<lparr>lst_cumulative_unrecoverable = 0, lst_cumulative_operating_income = 0,
            lst_monthly_expenses = [], lst_monthly_data = []\<rparr>))
     * p_tax_bracket example_params = 2000 / 3"
proof -
  have "am_interest (mortgage_of_month
          (projr (calculate_amortization_schedule 400000 (65 / 1000) 30)) 1) = 6500 / 3"
    by (simp add: schedule_positive_rate mortgage_of_month_def schedule_entry_def)
  then show ?thesis
    by (simp add: simulation_py_home_locals_def Let_def py_pow_def example_params_def)
qed

text \<open>In general, the tax benefit computed by simulation.py is the sum times \<open>1 - tax_bracket\<close>.\<close>

lemma simulation_py_locals_tax_benefit:
  "lv_monthly_tax_benefit (simulation_py_home_locals params amortization month st)
     = (lv_interest_payment (simulation_py_home_locals params amortization month st)
        + lv_property_tax (simulation_py_home_locals params amortization month st))
       * (1 - p_tax_bracket params)"
  by (simp add: simulation_py_home_locals_def Let_def)

lemma rental_loop_append:
  "\<exists>rows. rental_loop params amortization ms monthly_data = monthly_data @ rows
          \<and> length rows = length ms"
proof (induction ms arbitrary: monthly_data)
  case Nil
  then show ?case by simp
next
  case (Cons month rest)
  from Cons.IH[of "monthly_data @ [rental_month params amortization month monthly_data]"]
  obtain rows where
    "rental_loop params amortization rest
       (monthly_data @ [rental_month params amortization month monthly_data])
     = (monthly_data @ [rental_month params amortization month monthly_data]) @ rows"
    "length rows = length rest" by blast
  then show ?case by simp
qed

lemma rental_loop_length:
  "length (rental_loop params amortization ms monthly_data) = length monthly_data + length ms"
  using rental_loop_append[of params amortization ms monthly_data] by auto


lemma rental_month_ignores_selling_cost:
  "rental_month (params\<lparr>p_selling_cost_pct := x\<rparr>) amortization month monthly_data
     = rental_month params amortization month monthly_data"
  by (simp add: rental_month_def)

lemma rental_loop_ignores_selling_cost:
  "rental_loop (params\<lparr>p_selling_cost_pct := x\<rparr>) amortization ms monthly_data
     = rental_loop params amortization ms monthly_data"
  by (induction ms arbitrary: monthly_data) (simp_all add: rental_month_ignores_selling_cost)

lemma simulate_rental_property_rows:
  assumes "simulate_rental_property params = Inr result"
  shows "\<exists>amortization.
           calculate_amortization_schedule
             (p_purchase_price params - p_purchase_price params * p_down_payment_pct params)
             (p_mortgage_rate params) (p_mortgage_years params) = Inr amortization
         \<and> r_monthly_df result = rental_loop params amortization [1..p_years params * 12] []
         \<and> r_monthly_df result \<noteq> []"
  using assms
  by (auto simp: simulate_rental_property_def Let_def py_index_empty split: sum.splits)

lemma simulate_rental_property_returns:
  assumes "1 \<le> p_mortgage_years params" "0 \<le> p_mortgage_rate params" "1 \<le> p_years params"
  shows "\<exists>result. simulate_rental_property params = Inr result
           \<and> int (length (r_monthly_df result)) = p_years params * 12"
proof -
  from schedule_returns[OF assms(1,2)] obtain amortization where
    am: "calculate_amortization_schedule
           (p_purchase_price params - p_purchase_price params * p_down_payment_pct params)
           (p_mortgage_rate params) (p_mortgage_years params) = Inr amortization" by blast
  let ?df = "rental_loop params amortization [1..p_years params * 12] []"
  have len: "int (length ?df) = p_years params * 12"
    using assms(3) by (simp add: rental_loop_length)
  with assms(3) have "?df \<noteq> []" by auto
  then have "py_index ?df (- 1) = Inr (last ?df)" by (rule py_index_last)
  with am len show ?thesis
    by (simp add: simulate_rental_property_def Let_def)
qed

text \<open>
  C10.  \<open>simulate_rental_property\<close> of rental\_simulation.py takes its selling costs as
  \<open>final_property_value * 0.06\<close>: the selling-cost fraction of the parameters has no
  influence on the result, and in every result \<open>selling_costs\<close>, \<open>final_net_proceeds\<close> and
  \<open>total_true_cost\<close> are computed with the fraction 6 / 100.
\<close>

theorem rental_selling_costs_hard_coded:
  "simulate_rental_property (params\<lparr>p_selling_cost_pct := x\<rparr>) = simulate_rental_property params
   \<and> (\<forall>result. simulate_rental_property params = Inr result \<longrightarrow>
         rs_final_property_value (r_summary result) = r_property_value (last (r_monthly_df result))
       \<and> rs_selling_costs (r_summary result)
           = rs_final_property_value (r_summary result) * (6 / 100)
       \<and> rs_final_net_proceeds (r_summary result)
           = rs_final_property_value (r_summary result)
             - rs_final_property_value (r_summary result) * (6 / 100)
             - r_remaining_balance (last (r_monthly_df result))
       \<and> rs_total_true_cost (r_summary result)
           = r_cumulative_true_cost (last (r_monthly_df result))
             + rs_final_property_value (r_summary result) * (6 / 100))"
proof (intro conjI allI impI)
  show "simulate_rental_property (params\<lparr>p_selling_cost_pct := x\<rparr>) = simulate_rental_property params"
    by (simp add: simulate_rental_property_def Let_def rental_loop_ignores_selling_cost
        split: sum.split)
next
  fix result assume r: "simulate_rental_property params = Inr result"
  from simulate_rental_property_rows[OF r] obtain amortization where
    am: "calculate_amortization_schedule
             (p_purchase_price params - p_purchase_price params * p_down_payment_pct params)
             (p_mortgage_rate params) (p_mortgage_years params) = Inr amortization"
    and df: "r_monthly_df result = rental_loop params amortization [1..p_years params * 12] []"
    and ne: "r_monthly_df result \<noteq> []" by blast
  let ?df = "rental_loop params amortization [1..p_years params * 12] []"
  from ne have idx: "py_index ?df (- 1) = Inr (last ?df)"
    by (simp add: df py_index_last)
  show "rs_final_property_value (r_summary result) = r_property_value (last (r_monthly_df result))"
    and "rs_selling_costs (r_summary result)
           = rs_final_property_value (r_summary result) * (6 / 100)"
    and "rs_final_net_proceeds (r_summary result)
           = rs_final_property_value (r_summary result)
             - rs_final_property_value (r_summary result) * (6 / 100)
             - r_remaining_balance (last (r_monthly_df result))"
    and "rs_total_true_cost (r_summary result)
           = r_cumulative_true_cost (last (r_monthly_df result))
             + rs_final_property_value (r_summary result) * (6 / 100)"
    using r by (auto simp: simulate_rental_property_def Let_def am idx)
qed

theorem rental_selling_costs_hard_coded_witness:
  "\<exists>result. simulate_rental_property example_params = Inr result
     \<and> simulate_rental_property (example_params\<lparr>p_selling_cost_pct := 1 / 100\<rparr>) = Inr result
     \<and> rs_selling_costs (r_summary result)
         = rs_final_property_value (r_summary result) * (6 / 100)"
proof -
  from simulate_rental_property_returns[of example_params] obtain result where
    r: "simulate_rental_property example_params = Inr result"
    by (auto simp: example_params_def)
  with rental_selling_costs_hard_coded[where params = example_params and x = "1 / 100"] show ?thesis by auto
qed










section \<open>Running totals\<close>


lemma running_total_snoc:
  fixes cum delta :: "'row \<Rightarrow> real"
  assumes "\<And>k. k < length rows \<Longrightarrow>
             cum (rows ! k) = sum_list (map delta (take k rows)) + delta (rows ! k)"
    and "cum row = sum_list (map delta rows) + delta row"
    and "k < length (rows @ [row])"
  shows "cum ((rows @ [row]) ! k)
           = sum_list (map delta (take k (rows @ [row]))) + delta ((rows @ [row]) ! k)"
proof (cases "k < length rows")
  case True
  with assms(1)[OF True] show ?thesis by (simp add: nth_append)
next
  case False
  with assms(3) have "k = length rows" by simp
  with assms(2) show ?thesis by simp
qed

subsection \<open>Buy and live\<close>




subsection \<open>Buy and rent out\<close>






subsection \<open>Rent and invest\<close>

lemma rent_and_invest_month_last:
  assumes "rent_and_invest_month params costs month st = Inr st'"
  shows "st_monthly_data st' = st_monthly_data st @ [last (st_monthly_data st')]"
    and "ri_month (last (st_monthly_data st')) = month"
    and "py_index costs (month - 1)
           = Inr (ri_monthly_contribution (last (st_monthly_data st'))
                  + ri_monthly_rent (last (st_monthly_data st')))"
    and "ri_cumulative_operating_income (last (st_monthly_data st'))
           = sum_list (map ri_monthly_operating_income (st_monthly_data st))
             + ri_monthly_operating_income (last (st_monthly_data st'))"
    and "ri_dividend_tax (last (st_monthly_data st'))
           = (if (month - 1) mod 12 + 1 = 12
              then (st_annual_dividends st + ri_monthly_dividend (last (st_monthly_data st')))
                   * p_tax_bracket params
              else 0)"
    and "st_cumulative_dividend_tax st'
           = (if (month - 1) mod 12 + 1 = 12
              then st_cumulative_dividend_tax st + ri_dividend_tax (last (st_monthly_data st'))
              else st_cumulative_dividend_tax st)"
    and "st_annual_dividends st'
           = (if (month - 1) mod 12 + 1 = 12 then 0
              else st_annual_dividends st + ri_monthly_dividend (last (st_monthly_data st')))"
  using assms
  by (auto simp: rent_and_invest_month_def Let_def split: sum.splits)



lemma rent_and_invest_month_returns:
  assumes "1 \<le> month" "month \<le> int (length costs)"
  shows "\<exists>st'. rent_and_invest_month params costs month st = Inr st'"
  using assms by (simp add: rent_and_invest_month_def Let_def py_index_in_range)

lemma rent_and_invest_loop_returns:
  assumes "\<forall>month\<in>set ms. 1 \<le> month \<and> month \<le> int (length costs)"
  shows "\<exists>st'. rent_and_invest_loop params costs ms st = Inr st'"
  using assms
proof (induction ms arbitrary: st)
  case Nil
  then show ?case by simp
next
  case (Cons month rest)
  then have "1 \<le> month" "month \<le> int (length costs)" by simp_all
  from rent_and_invest_month_returns[OF this] obtain st1 where
    "rent_and_invest_month params costs month st = Inr st1" by blast
  moreover from Cons obtain st' where "rent_and_invest_loop params costs rest st1 = Inr st'"
    by auto
  ultimately show ?case by simp
qed

lemma simulate_rent_and_invest_loop:
  assumes "simulate_rent_and_invest params costs = Inr result"
  shows "\<exists>st. rent_and_invest_loop params costs [1..p_years params * 12]
               \<lparr>st_portfolio_value = p_initial_investment params, st_cumulative_rent = 0,
                st_cumulative_dividends = 0, st_cumulative_dividend_tax = 0,
                st_annual_dividends = 0, st_monthly_data = []\<rparr> = Inr st
             \<and> ri_monthly_df result = st_monthly_data st
             \<and> ris_total_dividend_tax (ri_summary result) = st_cumulative_dividend_tax st"
  using assms
  by (auto simp: simulate_rent_and_invest_def Let_def split: sum.splits)




section \<open>The annual dividend tax\<close>

text \<open>
  A ledger of rows with a monthly dividend \<open>md\<close> and a recorded tax \<open>dt\<close>, row \<open>k\<close>
  belonging to month \<open>k + 1\<close>: the tax of a 12th month is the sum of the 12 dividends of
  its year times \<open>tb\<close>, the tax of any other month is 0, and \<open>annual\<close> holds the dividends
  of the months of the running year.  Appending a month keeps this.
\<close>

lemma annual_tax_snoc:
  fixes md dt :: "'row \<Rightarrow> real"
  assumes inv: "\<forall>k<length rows. dt (rows ! k)
                  = (if Suc k mod 12 = 0
                     then sum_list (map md (take 12 (drop (k - 11) rows))) * tb else 0)"
    and acc: "annual = sum_list (map md (drop (length rows - length rows mod 12) rows))"
    and new: "dt row = (if Suc (length rows) mod 12 = 0 then (annual + md row) * tb else 0)"
  shows "\<forall>k<length (rows @ [row]). dt ((rows @ [row]) ! k)
           = (if Suc k mod 12 = 0
              then sum_list (map md (take 12 (drop (k - 11) (rows @ [row])))) * tb else 0)"
    and "(if Suc (length rows) mod 12 = 0 then 0 else annual + md row)
           = sum_list (map md (drop (Suc (length rows) - Suc (length rows) mod 12)
                                 (rows @ [row])))"
proof -
  let ?n = "length rows"
  show "\<forall>k<length (rows @ [row]). dt ((rows @ [row]) ! k)
           = (if Suc k mod 12 = 0
              then sum_list (map md (take 12 (drop (k - 11) (rows @ [row])))) * tb else 0)"
  proof (intro allI impI)
    fix k assume k: "k < length (rows @ [row])"
    show "dt ((rows @ [row]) ! k)
           = (if Suc k mod 12 = 0
              then sum_list (map md (take 12 (drop (k - 11) (rows @ [row])))) * tb else 0)"
    proof (cases "k < ?n")
      case True
      have "take 12 (drop (k - 11) (rows @ [row])) = take 12 (drop (k - 11) rows)"
        if "Suc k mod 12 = 0"
      proof -
        from that have "k mod 12 = 11" by (simp add: mod_Suc split: if_splits)
        moreover have "k mod 12 \<le> k" by (rule mod_less_eq_dividend)
        ultimately have "11 \<le> k" by simp
        with True have "12 \<le> length (drop (k - 11) rows)" by simp
        moreover from True have "k - 11 \<le> ?n" by simp
        ultimately show ?thesis by simp
      qed
      with inv True show ?thesis by (simp add: nth_append)
    next
      case False
      with k have kn: "k = ?n" by simp
      show ?thesis
      proof (cases "Suc ?n mod 12 = 0")
        case True
        then have m: "?n mod 12 = 11" by (simp add: mod_Suc split: if_splits)
        moreover have "?n mod 12 \<le> ?n" by (rule mod_less_eq_dividend)
        ultimately have ge: "11 \<le> ?n" by simp
        from ge have "length (drop (?n - 11) (rows @ [row])) = 12" by simp
        then have "take 12 (drop (?n - 11) (rows @ [row])) = drop (?n - 11) rows @ [row]"
          using ge by simp
        then have "sum_list (map md (take 12 (drop (?n - 11) (rows @ [row])))) = annual + md row"
          using acc m by simp
        with new True kn show ?thesis by simp
      next
        case False
        with new kn show ?thesis by simp
      qed
    qed
  qed
  show "(if Suc ?n mod 12 = 0 then 0 else annual + md row)
           = sum_list (map md (drop (Suc ?n - Suc ?n mod 12) (rows @ [row])))"
  proof (cases "Suc ?n mod 12 = 0")
    case True
    then show ?thesis by simp
  next
    case False
    then have "Suc ?n mod 12 = Suc (?n mod 12)" by (simp add: mod_Suc split: if_splits)
    moreover have "?n mod 12 \<le> ?n" by (rule mod_less_eq_dividend)
    ultimately have "Suc ?n - Suc ?n mod 12 = ?n - ?n mod 12" by simp
    moreover have "?n - ?n mod 12 \<le> ?n" by simp
    ultimately show ?thesis using False acc by simp
  qed
qed

lemma twelfth_month:
  "((int n + 1 - 1) mod 12 + 1 = 12) = (Suc n mod 12 = 0)"
proof -
  have "int n mod 12 = int (n mod 12)" by (simp add: zmod_int)
  then have "((int n + 1 - 1) mod 12 + 1 = 12) = (n mod 12 = 11)" by simp
  also have "\<dots> = (Suc n mod 12 = 0)" by (simp add: mod_Suc)
  finally show ?thesis .
qed

subsection \<open>The loop of simulate\_rent\_and\_invest\<close>

lemma rent_and_invest_month_tax_facts:
  assumes "rent_and_invest_month params costs month st = Inr st'"
  shows "ri_cumulative_dividend_tax (last (st_monthly_data st')) = st_cumulative_dividend_tax st'"
    and "ri_monthly_operating_income (last (st_monthly_data st')) = ri_monthly_dividend (last (st_monthly_data st'))"
  using assms
  by (auto simp: rent_and_invest_month_def Let_def split: sum.splits)

lemma rent_and_invest_loop_prefix:
  assumes "rent_and_invest_loop params costs ms st = Inr st'"
  shows "take (length (st_monthly_data st)) (st_monthly_data st') = st_monthly_data st
       \<and> length (st_monthly_data st') = length (st_monthly_data st) + length ms"
  using assms
proof (induction ms arbitrary: st)
  case Nil
  then show ?case by simp
next
  case (Cons month rest)
  from Cons.prems obtain st1 where
    m: "rent_and_invest_month params costs month st = Inr st1"
    and l: "rent_and_invest_loop params costs rest st1 = Inr st'"
    by (auto split: sum.splits)
  from rent_and_invest_month_last(1)[OF m] obtain row where row: "st_monthly_data st1 = st_monthly_data st @ [row]" by blast
  from Cons.IH[OF l] have ih: "take (length (st_monthly_data st1)) (st_monthly_data st') = st_monthly_data st1"
    and len: "length (st_monthly_data st') = length (st_monthly_data st1) + length rest" by simp_all
  have "take (length (st_monthly_data st)) (take (length (st_monthly_data st1)) (st_monthly_data st')) = st_monthly_data st"
    by (simp only: ih) (simp add: row)
  then have "take (length (st_monthly_data st)) (st_monthly_data st') = st_monthly_data st"
    by (simp add: row min_def)
  with len row show ?case by simp
qed

lemma rent_and_invest_loop_running_total:
  assumes "rent_and_invest_loop params costs ms st = Inr st'"
    and "\<forall>k<length (st_monthly_data st). ri_cumulative_operating_income (st_monthly_data st ! k)
            = sum_list (map ri_monthly_operating_income (take k (st_monthly_data st))) + ri_monthly_operating_income (st_monthly_data st ! k)"
  shows "\<forall>k<length (st_monthly_data st'). ri_cumulative_operating_income (st_monthly_data st' ! k)
            = sum_list (map ri_monthly_operating_income (take k (st_monthly_data st'))) + ri_monthly_operating_income (st_monthly_data st' ! k)"
  using assms
proof (induction ms arbitrary: st)
  case Nil
  then show ?case by simp
next
  case (Cons month rest)
  from Cons.prems(1) obtain st1 where
    m: "rent_and_invest_month params costs month st = Inr st1"
    and l: "rent_and_invest_loop params costs rest st1 = Inr st'"
    by (auto split: sum.splits)
  let ?row = "last (st_monthly_data st1)"
  have row: "st_monthly_data st1 = st_monthly_data st @ [?row]" by (rule rent_and_invest_month_last(1)[OF m])
  have new: "ri_cumulative_operating_income ?row = sum_list (map ri_monthly_operating_income (st_monthly_data st)) + ri_monthly_operating_income ?row"
    by (rule rent_and_invest_month_last(4)[OF m])
  have "\<forall>k<length (st_monthly_data st @ [?row]). ri_cumulative_operating_income ((st_monthly_data st @ [?row]) ! k)
            = sum_list (map ri_monthly_operating_income (take k (st_monthly_data st @ [?row]))) + ri_monthly_operating_income ((st_monthly_data st @ [?row]) ! k)"
    using running_total_snoc[of "st_monthly_data st" ri_cumulative_operating_income ri_monthly_operating_income ?row] Cons.prems(2) new by blast
  then have "\<forall>k<length (st_monthly_data st1). ri_cumulative_operating_income (st_monthly_data st1 ! k)
            = sum_list (map ri_monthly_operating_income (take k (st_monthly_data st1))) + ri_monthly_operating_income (st_monthly_data st1 ! k)"
    by (simp only: row[symmetric])
  from Cons.IH[OF l this] show ?case .
qed

lemma rent_and_invest_loop_annual_tax:
  assumes "rent_and_invest_loop params costs ms st = Inr st'"
    and "\<forall>j<length ms. ms ! j = int (length (st_monthly_data st)) + 1 + int j"
    and "\<forall>k<length (st_monthly_data st). ri_dividend_tax (st_monthly_data st ! k)
            = (if Suc k mod 12 = 0
               then sum_list (map ri_monthly_dividend (take 12 (drop (k - 11) (st_monthly_data st)))) * p_tax_bracket params
               else 0)"
    and "st_annual_dividends st
           = sum_list (map ri_monthly_dividend (drop (length (st_monthly_data st) - length (st_monthly_data st) mod 12) (st_monthly_data st)))"
  shows "\<forall>k<length (st_monthly_data st'). ri_dividend_tax (st_monthly_data st' ! k)
            = (if Suc k mod 12 = 0
               then sum_list (map ri_monthly_dividend (take 12 (drop (k - 11) (st_monthly_data st')))) * p_tax_bracket params
               else 0)"
  using assms
proof (induction ms arbitrary: st)
  case Nil
  then show ?case by simp
next
  case (Cons month rest)
  from Cons.prems(1) obtain st1 where
    m: "rent_and_invest_month params costs month st = Inr st1"
    and l: "rent_and_invest_loop params costs rest st1 = Inr st'"
    by (auto split: sum.splits)
  let ?rows = "st_monthly_data st"
  let ?row = "last (st_monthly_data st1)"
  have row: "st_monthly_data st1 = ?rows @ [?row]" by (rule rent_and_invest_month_last(1)[OF m])
  from Cons.prems(2) have month: "month = int (length ?rows) + 1" by auto
  have twelfth: "((month - 1) mod 12 + 1 = 12) = (Suc (length ?rows) mod 12 = 0)"
    unfolding month by (rule twelfth_month)
  have new: "ri_dividend_tax ?row
      = (if Suc (length ?rows) mod 12 = 0 then (st_annual_dividends st + ri_monthly_dividend ?row) * p_tax_bracket params else 0)"
    using rent_and_invest_month_last(5)[OF m] by (simp only: twelfth)
  have acc1: "st_annual_dividends st1 = (if Suc (length ?rows) mod 12 = 0 then 0 else st_annual_dividends st + ri_monthly_dividend ?row)"
    using rent_and_invest_month_last(7)[OF m] by (simp only: twelfth)
  note snoc = annual_tax_snoc[of ?rows ri_dividend_tax ri_monthly_dividend "p_tax_bracket params" "st_annual_dividends st" ?row,
      OF Cons.prems(3) Cons.prems(4) new]
  have inv1: "\<forall>k<length (st_monthly_data st1). ri_dividend_tax (st_monthly_data st1 ! k)
            = (if Suc k mod 12 = 0
               then sum_list (map ri_monthly_dividend (take 12 (drop (k - 11) (st_monthly_data st1)))) * p_tax_bracket params
               else 0)"
    using snoc(1) by (simp only: row[symmetric])
  have len1: "length (st_monthly_data st1) = Suc (length ?rows)"
    by (subst row) simp
  have acc: "st_annual_dividends st1
        = sum_list (map ri_monthly_dividend (drop (length (st_monthly_data st1) - length (st_monthly_data st1) mod 12) (st_monthly_data st1)))"
    using snoc(2) acc1 by (simp only: len1) (simp only: row[symmetric])
  have cons: "\<forall>j<length rest. rest ! j = int (length (st_monthly_data st1)) + 1 + int j"
  proof (intro allI impI)
    fix j assume "j < length rest"
    then have "Suc j < length (month # rest)" by simp
    with Cons.prems(2) have "(month # rest) ! Suc j = int (length ?rows) + 1 + int (Suc j)"
      by blast
    then show "rest ! j = int (length (st_monthly_data st1)) + 1 + int j" by (simp add: len1)
  qed
  from Cons.IH[OF l cons inv1 acc] show ?case .
qed

lemma rent_and_invest_loop_cumulative_tax:
  assumes "rent_and_invest_loop params costs ms st = Inr st'"
    and "st_cumulative_dividend_tax st = sum_list (map ri_dividend_tax (st_monthly_data st))"
    and "\<forall>k<length (st_monthly_data st). ri_cumulative_dividend_tax (st_monthly_data st ! k) = sum_list (map ri_dividend_tax (take (Suc k) (st_monthly_data st)))"
  shows "st_cumulative_dividend_tax st' = sum_list (map ri_dividend_tax (st_monthly_data st'))
       \<and> (\<forall>k<length (st_monthly_data st'). ri_cumulative_dividend_tax (st_monthly_data st' ! k)
              = sum_list (map ri_dividend_tax (take (Suc k) (st_monthly_data st'))))"
  using assms
proof (induction ms arbitrary: st)
  case Nil
  then show ?case by simp
next
  case (Cons month rest)
  from Cons.prems(1) obtain st1 where
    m: "rent_and_invest_month params costs month st = Inr st1"
    and l: "rent_and_invest_loop params costs rest st1 = Inr st'"
    by (auto split: sum.splits)
  let ?rows = "st_monthly_data st"
  let ?row = "last (st_monthly_data st1)"
  have row: "st_monthly_data st1 = ?rows @ [?row]" by (rule rent_and_invest_month_last(1)[OF m])
  have "st_cumulative_dividend_tax st1 = st_cumulative_dividend_tax st + ri_dividend_tax ?row"
    using rent_and_invest_month_last(5,6)[OF m] by (simp split: if_splits)
  with Cons.prems(2) have c1: "st_cumulative_dividend_tax st1 = sum_list (map ri_dividend_tax (st_monthly_data st1))"
    by (subst row) simp
  have r1: "\<forall>k<length (st_monthly_data st1). ri_cumulative_dividend_tax (st_monthly_data st1 ! k)
              = sum_list (map ri_dividend_tax (take (Suc k) (st_monthly_data st1)))"
  proof (intro allI impI)
    fix k assume k: "k < length (st_monthly_data st1)"
    show "ri_cumulative_dividend_tax (st_monthly_data st1 ! k) = sum_list (map ri_dividend_tax (take (Suc k) (st_monthly_data st1)))"
    proof (cases "k < length ?rows")
      case True
      with Cons.prems(3) have "ri_cumulative_dividend_tax (?rows ! k) = sum_list (map ri_dividend_tax (take (Suc k) ?rows))"
        by blast
      with True show ?thesis by (subst (1 2) row) (simp add: nth_append)
    next
      case False
      with k have kn: "k = length ?rows" by (simp add: row[THEN arg_cong, of length])
      have "st_monthly_data st1 ! k = ?row" unfolding kn by (subst row) simp
      moreover have "take (Suc k) (st_monthly_data st1) = st_monthly_data st1"
        unfolding kn by (subst (1 2) row) simp
      ultimately show ?thesis using rent_and_invest_month_tax_facts(1)[OF m] c1 by simp
    qed
  qed
  from Cons.IH[OF l c1 r1] show ?case .
qed

subsection \<open>The loop of simulate\_stock\_investment\<close>

lemma stock_month_last:
  assumes "stock_month params costs month st = Inr st'"
  shows "sst_monthly_data st' = sst_monthly_data st @ [last (sst_monthly_data st')]"
    and "s_month (last (sst_monthly_data st')) = month"
    and "py_index costs (month - 1) = Inr (s_monthly_contribution (last (sst_monthly_data st')))"
    and "s_cumulative_operating_income (last (sst_monthly_data st'))
           = sum_list (map s_monthly_operating_income (sst_monthly_data st))
             + s_monthly_operating_income (last (sst_monthly_data st'))"
    and "s_dividend_tax (last (sst_monthly_data st'))
           = (if (month - 1) mod 12 + 1 = 12
              then (sst_annual_dividends st + s_monthly_dividend (last (sst_monthly_data st')))
                   * p_tax_bracket params
              else 0)"
    and "sst_cumulative_dividend_tax st'
           = (if (month - 1) mod 12 + 1 = 12
              then sst_cumulative_dividend_tax st + s_dividend_tax (last (sst_monthly_data st'))
              else sst_cumulative_dividend_tax st)"
    and "sst_annual_dividends st'
           = (if (month - 1) mod 12 + 1 = 12 then 0
              else sst_annual_dividends st + s_monthly_dividend (last (sst_monthly_data st')))"
  using assms
  by (auto simp: stock_month_def Let_def split: sum.splits)

lemma stock_month_tax_facts:
  assumes "stock_month params costs month st = Inr st'"
  shows "s_cumulative_cost (last (sst_monthly_data st')) = sst_cumulative_dividend_tax st'"
    and "s_monthly_operating_income (last (sst_monthly_data st')) = s_monthly_dividend (last (sst_monthly_data st'))"
  using assms
  by (auto simp: stock_month_def Let_def split: sum.splits)

lemma stock_loop_prefix:
  assumes "stock_loop params costs ms st = Inr st'"
  shows "take (length (sst_monthly_data st)) (sst_monthly_data st') = sst_monthly_data st
       \<and> length (sst_monthly_data st') = length (sst_monthly_data st) + length ms"
  using assms
proof (induction ms arbitrary: st)
  case Nil
  then show ?case by simp
next
  case (Cons month rest)
  from Cons.prems obtain st1 where
    m: "stock_month params costs month st = Inr st1"
    and l: "stock_loop params costs rest st1 = Inr st'"
    by (auto split: sum.splits)
  from stock_month_last(1)[OF m] obtain row where row: "sst_monthly_data st1 = sst_monthly_data st @ [row]" by blast
  from Cons.IH[OF l] have ih: "take (length (sst_monthly_data st1)) (sst_monthly_data st') = sst_monthly_data st1"
    and len: "length (sst_monthly_data st') = length (sst_monthly_data st1) + length rest" by simp_all
  have "take (length (sst_monthly_data st)) (take (length (sst_monthly_data st1)) (sst_monthly_data st')) = sst_monthly_data st"
    by (simp only: ih) (simp add: row)
  then have "take (length (sst_monthly_data st)) (sst_monthly_data st') = sst_monthly_data st"
    by (simp add: row min_def)
  with len row show ?case by simp
qed

lemma stock_loop_running_total:
  assumes "stock_loop params costs ms st = Inr st'"
    and "\<forall>k<length (sst_monthly_data st). s_cumulative_operating_income (sst_monthly_data st ! k)
            = sum_list (map s_monthly_operating_income (take k (sst_monthly_data st))) + s_monthly_operating_income (sst_monthly_data st ! k)"
  shows "\<forall>k<length (sst_monthly_data st'). s_cumulative_operating_income (sst_monthly_data st' ! k)
            = sum_list (map s_monthly_operating_income (take k (sst_monthly_data st'))) + s_monthly_operating_income (sst_monthly_data st' ! k)"
  using assms
proof (induction ms arbitrary: st)
  case Nil
  then show ?case by simp
next
  case (Cons month rest)
  from Cons.prems(1) obtain st1 where
    m: "stock_month params costs month st = Inr st1"
    and l: "stock_loop params costs rest st1 = Inr st'"
    by (auto split: sum.splits)
  let ?row = "last (sst_monthly_data st1)"
  have row: "sst_monthly_data st1 = sst_monthly_data st @ [?row]" by (rule stock_month_last(1)[OF m])
  have new: "s_cumulative_operating_income ?row = sum_list (map s_monthly_operating_income (sst_monthly_data st)) + s_monthly_operating_income ?row"
    by (rule stock_month_last(4)[OF m])
  have "\<forall>k<length (sst_monthly_data st @ [?row]). s_cumulative_operating_income ((sst_monthly_data st @ [?row]) ! k)
            = sum_list (map s_monthly_operating_income (take k (sst_monthly_data st @ [?row]))) + s_monthly_operating_income ((sst_monthly_data st @ [?row]) ! k)"
    using running_total_snoc[of "sst_monthly_data st" s_cumulative_operating_income s_monthly_operating_income ?row] Cons.prems(2) new by blast
  then have "\<forall>k<length (sst_monthly_data st1). s_cumulative_operating_income (sst_monthly_data st1 ! k)
            = sum_list (map s_monthly_operating_income (take k (sst_monthly_data st1))) + s_monthly_operating_income (sst_monthly_data st1 ! k)"
    by (simp only: row[symmetric])
  from Cons.IH[OF l this] show ?case .
qed

lemma stock_loop_annual_tax:
  assumes "stock_loop params costs ms st = Inr st'"
    and "\<forall>j<length ms. ms ! j = int (length (sst_monthly_data st)) + 1 + int j"
    and "\<forall>k<length (sst_monthly_data st). s_dividend_tax (sst_monthly_data st ! k)
            = (if Suc k mod 12 = 0
               then sum_list (map s_monthly_dividend (take 12 (drop (k - 11) (sst_monthly_data st)))) * p_tax_bracket params
               else 0)"
    and "sst_annual_dividends st
           = sum_list (map s_monthly_dividend (drop (length (sst_monthly_data st) - length (sst_monthly_data st) mod 12) (sst_monthly_data st)))"
  shows "\<forall>k<length (sst_monthly_data st'). s_dividend_tax (sst_monthly_data st' ! k)
            = (if Suc k mod 12 = 0
               then sum_list (map s_monthly_dividend (take 12 (drop (k - 11) (sst_monthly_data st')))) * p_tax_bracket params
               else 0)"
  using assms
proof (induction ms arbitrary: st)
  case Nil
  then show ?case by simp
next
  case (Cons month rest)
  from Cons.prems(1) obtain st1 where
    m: "stock_month params costs month st = Inr st1"
    and l: "stock_loop params costs rest st1 = Inr st'"
    by (auto split: sum.splits)
  let ?rows = "sst_monthly_data st"
  let ?row = "last (sst_monthly_data st1)"
  have row: "sst_monthly_data st1 = ?rows @ [?row]" by (rule stock_month_last(1)[OF m])
  from Cons.prems(2) have month: "month = int (length ?rows) + 1" by auto
  have twelfth: "((month - 1) mod 12 + 1 = 12) = (Suc (length ?rows) mod 12 = 0)"
    unfolding month by (rule twelfth_month)
  have new: "s_dividend_tax ?row
      = (if Suc (length ?rows) mod 12 = 0 then (sst_annual_dividends st + s_monthly_dividend ?row) * p_tax_bracket params else 0)"
    using stock_month_last(5)[OF m] by (simp only: twelfth)
  have acc1: "sst_annual_dividends st1 = (if Suc (length ?rows) mod 12 = 0 then 0 else sst_annual_dividends st + s_monthly_dividend ?row)"
    using stock_month_last(7)[OF m] by (simp only: twelfth)
  note snoc = annual_tax_snoc[of ?rows s_dividend_tax s_monthly_dividend "p_tax_bracket params" "sst_annual_dividends st" ?row,
      OF Cons.prems(3) Cons.prems(4) new]
  have inv1: "\<forall>k<length (sst_monthly_data st1). s_dividend_tax (sst_monthly_data st1 ! k)
            = (if Suc k mod 12 = 0
               then sum_list (map s_monthly_dividend (take 12 (drop (k - 11) (sst_monthly_data st1)))) * p_tax_bracket params
               else 0)"
    using snoc(1) by (simp only: row[symmetric])
  have len1: "length (sst_monthly_data st1) = Suc (length ?rows)"
    by (subst row) simp
  have acc: "sst_annual_dividends st1
        = sum_list (map s_monthly_dividend (drop (length (sst_monthly_data st1) - length (sst_monthly_data st1) mod 12) (sst_monthly_data st1)))"
    using snoc(2) acc1 by (simp only: len1) (simp only: row[symmetric])
  have cons: "\<forall>j<length rest. rest ! j = int (length (sst_monthly_data st1)) + 1 + int j"
  proof (intro allI impI)
    fix j assume "j < length rest"
    then have "Suc j < length (month # rest)" by simp
    with Cons.prems(2) have "(month # rest) ! Suc j = int (length ?rows) + 1 + int (Suc j)"
      by blast
    then show "rest ! j = int (length (sst_monthly_data st1)) + 1 + int j" by (simp add: len1)
  qed
  from Cons.IH[OF l cons inv1 acc] show ?case .
qed

lemma stock_loop_cumulative_tax:
  assumes "stock_loop params costs ms st = Inr st'"
    and "sst_cumulative_dividend_tax st = sum_list (map s_dividend_tax (sst_monthly_data st))"
    and "\<forall>k<length (sst_monthly_data st). s_cumulative_cost (sst_monthly_data st ! k) = sum_list (map s_dividend_tax (take (Suc k) (sst_monthly_data st)))"
  shows "sst_cumulative_dividend_tax st' = sum_list (map s_dividend_tax (sst_monthly_data st'))
       \<and> (\<forall>k<length (sst_monthly_data st'). s_cumulative_cost (sst_monthly_data st' ! k)
              = sum_list (map s_dividend_tax (take (Suc k) (sst_monthly_data st'))))"
  using assms
proof (induction ms arbitrary: st)
  case Nil
  then show ?case by simp
next
  case (Cons month rest)
  from Cons.prems(1) obtain st1 where
    m: "stock_month params costs month st = Inr st1"
    and l: "stock_loop params costs rest st1 = Inr st'"
    by (auto split: sum.splits)
  let ?rows = "sst_monthly_data st"
  let ?row = "last (sst_monthly_data st1)"
  have row: "sst_monthly_data st1 = ?rows @ [?row]" by (rule stock_month_last(1)[OF m])
  have "sst_cumulative_dividend_tax st1 = sst_cumulative_dividend_tax st + s_dividend_tax ?row"
    using stock_month_last(5,6)[OF m] by (simp split: if_splits)
  with Cons.prems(2) have c1: "sst_cumulative_dividend_tax st1 = sum_list (map s_dividend_tax (sst_monthly_data st1))"
    by (subst row) simp
  have r1: "\<forall>k<length (sst_monthly_data st1). s_cumulative_cost (sst_monthly_data st1 ! k)
              = sum_list (map s_dividend_tax (take (Suc k) (sst_monthly_data st1)))"
  proof (intro allI impI)
    fix k assume k: "k < length (sst_monthly_data st1)"
    show "s_cumulative_cost (sst_monthly_data st1 ! k) = sum_list (map s_dividend_tax (take (Suc k) (sst_monthly_data st1)))"
    proof (cases "k < length ?rows")
      case True
      with Cons.prems(3) have "s_cumulative_cost (?rows ! k) = sum_list (map s_dividend_tax (take (Suc k) ?rows))"
        by blast
      with True show ?thesis by (subst (1 2) row) (simp add: nth_append)
    next
      case False
      with k have kn: "k = length ?rows" by (simp add: row[THEN arg_cong, of length])
      have "sst_monthly_data st1 ! k = ?row" unfolding kn by (subst row) simp
      moreover have "take (Suc k) (sst_monthly_data st1) = sst_monthly_data st1"
        unfolding kn by (subst (1 2) row) simp
      ultimately show ?thesis using stock_month_tax_facts(1)[OF m] c1 by simp
    qed
  qed
  from Cons.IH[OF l c1 r1] show ?case .
qed

section \<open>Runs of the two stock simulators\<close>

lemma simulate_rent_and_invest_returns:
  assumes "1 \<le> p_years params" "p_years params * 12 \<le> int (length costs)"
  shows "\<exists>result. simulate_rent_and_invest params costs = Inr result
           \<and> int (length (ri_monthly_df result)) = p_years params * 12"
proof -
  let ?init = "\<lparr>st_portfolio_value = p_initial_investment params, st_cumulative_rent = 0,
                st_cumulative_dividends = 0, st_cumulative_dividend_tax = 0,
                st_annual_dividends = 0, st_monthly_data = []\<rparr>"
  let ?ms = "[1..p_years params * 12]"
  from assms(2) have "\<forall>month\<in>set ?ms. 1 \<le> month \<and> month \<le> int (length costs)" by auto
  from rent_and_invest_loop_returns[OF this] obtain st where
    st: "rent_and_invest_loop params costs ?ms ?init = Inr st" by blast
  from rent_and_invest_loop_prefix[OF st] assms(1)
  have len: "int (length (st_monthly_data st)) = p_years params * 12" by simp
  with assms(1) have "st_monthly_data st \<noteq> []" by auto
  then have "py_index (st_monthly_data st) (- 1) = Inr (last (st_monthly_data st))"
    by (rule py_index_last)
  with st len show ?thesis
    by (simp add: simulate_rent_and_invest_def Let_def)
qed

lemma stock_month_returns:
  assumes "1 \<le> month" "month \<le> int (length costs)"
  shows "\<exists>st'. stock_month params costs month st = Inr st'"
  using assms by (simp add: stock_month_def Let_def py_index_in_range)

lemma stock_loop_returns:
  assumes "\<forall>month\<in>set ms. 1 \<le> month \<and> month \<le> int (length costs)"
  shows "\<exists>st'. stock_loop params costs ms st = Inr st'"
  using assms
proof (induction ms arbitrary: st)
  case Nil
  then show ?case by simp
next
  case (Cons month rest)
  then have "1 \<le> month" "month \<le> int (length costs)" by simp_all
  from stock_month_returns[OF this] obtain st1 where
    "stock_month params costs month st = Inr st1" by blast
  moreover from Cons obtain st' where "stock_loop params costs rest st1 = Inr st'"
    by auto
  ultimately show ?case by simp
qed

lemma simulate_stock_investment_returns:
  assumes "1 \<le> p_years params" "p_years params * 12 \<le> int (length costs)"
  shows "\<exists>result. simulate_stock_investment params costs = Inr result
           \<and> int (length (s_monthly_df result)) = p_years params * 12"
proof -
  let ?init = "\<lparr>sst_portfolio_value = p_initial_investment params, sst_cumulative_dividends = 0,
             sst_cumulative_dividend_tax = 0, sst_annual_dividends = 0, sst_monthly_data = []\<rparr>"
  let ?ms = "[1..p_years params * 12]"
  from assms(2) have "\<forall>month\<in>set ?ms. 1 \<le> month \<and> month \<le> int (length costs)" by auto
  from stock_loop_returns[OF this] obtain st where
    st: "stock_loop params costs ?ms ?init = Inr st" by blast
  from stock_loop_prefix[OF st] assms(1)
  have len: "int (length (sst_monthly_data st)) = p_years params * 12" by simp
  with assms(1) have "sst_monthly_data st \<noteq> []" by auto
  then have "py_index (sst_monthly_data st) (- 1) = Inr (last (sst_monthly_data st))"
    by (rule py_index_last)
  with st len show ?thesis
    by (simp add: simulate_stock_investment_def Let_def)
qed

lemma simulate_stock_investment_loop:
  assumes "simulate_stock_investment params costs = Inr result"
  shows "\<exists>st. stock_loop params costs [1..p_years params * 12]
               \<lparr>sst_portfolio_value = p_initial_investment params, sst_cumulative_dividends = 0,
                sst_cumulative_dividend_tax = 0, sst_annual_dividends = 0,
                sst_monthly_data = []\<rparr> = Inr st
             \<and> s_monthly_df result = sst_monthly_data st
             \<and> ss_total_dividend_tax (s_summary result) = sst_cumulative_dividend_tax st"
  using assms
  by (auto simp: simulate_stock_investment_def Let_def split: sum.splits)

lemma rent_and_invest_rows:
  assumes "simulate_rent_and_invest params costs = Inr result"
  shows "\<forall>k<length (ri_monthly_df result).
           ri_cumulative_operating_income (ri_monthly_df result ! k)
             = sum_list (map ri_monthly_operating_income (take k (ri_monthly_df result)))
               + ri_monthly_operating_income (ri_monthly_df result ! k)"
    and "\<forall>k<length (ri_monthly_df result).
           ri_dividend_tax (ri_monthly_df result ! k)
             = (if Suc k mod 12 = 0
                then sum_list (map ri_monthly_dividend (take 12 (drop (k - 11) (ri_monthly_df result))))
                     * p_tax_bracket params
                else 0)"
    and "ris_total_dividend_tax (ri_summary result)
           = sum_list (map ri_dividend_tax (ri_monthly_df result))"
    and "\<forall>k<length (ri_monthly_df result).
           ri_cumulative_dividend_tax (ri_monthly_df result ! k)
             = sum_list (map ri_dividend_tax (take (Suc k) (ri_monthly_df result)))"
proof -
  let ?init = "\<lparr>st_portfolio_value = p_initial_investment params, st_cumulative_rent = 0,
                st_cumulative_dividends = 0, st_cumulative_dividend_tax = 0,
                st_annual_dividends = 0, st_monthly_data = []\<rparr>"
  from simulate_rent_and_invest_loop[OF assms] obtain st where
    st: "rent_and_invest_loop params costs [1..p_years params * 12] ?init = Inr st"
    and df: "ri_monthly_df result = st_monthly_data st"
    and total: "ris_total_dividend_tax (ri_summary result) = st_cumulative_dividend_tax st"
    by blast
  show "\<forall>k<length (ri_monthly_df result).
           ri_cumulative_operating_income (ri_monthly_df result ! k)
             = sum_list (map ri_monthly_operating_income (take k (ri_monthly_df result)))
               + ri_monthly_operating_income (ri_monthly_df result ! k)"
    unfolding df by (rule rent_and_invest_loop_running_total[OF st]) simp
  have cons: "\<forall>j<length [1..p_years params * 12].
      [1..p_years params * 12] ! j = int (length (st_monthly_data ?init)) + 1 + int j"
    by (simp add: nth_upto)
  show "\<forall>k<length (ri_monthly_df result).
           ri_dividend_tax (ri_monthly_df result ! k)
             = (if Suc k mod 12 = 0
                then sum_list (map ri_monthly_dividend (take 12 (drop (k - 11) (ri_monthly_df result))))
                     * p_tax_bracket params
                else 0)"
    unfolding df by (rule rent_and_invest_loop_annual_tax[OF st cons]) simp_all
  have "st_cumulative_dividend_tax st = sum_list (map ri_dividend_tax (st_monthly_data st))
       \<and> (\<forall>k<length (st_monthly_data st). ri_cumulative_dividend_tax (st_monthly_data st ! k)
              = sum_list (map ri_dividend_tax (take (Suc k) (st_monthly_data st))))"
    by (rule rent_and_invest_loop_cumulative_tax[OF st]) simp_all
  then show "ris_total_dividend_tax (ri_summary result)
           = sum_list (map ri_dividend_tax (ri_monthly_df result))"
    and "\<forall>k<length (ri_monthly_df result).
           ri_cumulative_dividend_tax (ri_monthly_df result ! k)
             = sum_list (map ri_dividend_tax (take (Suc k) (ri_monthly_df result)))"
    by (simp_all add: df total)
qed

lemma stock_rows:
  assumes "simulate_stock_investment params costs = Inr result"
  shows "\<forall>k<length (s_monthly_df result).
           s_cumulative_operating_income (s_monthly_df result ! k)
             = sum_list (map s_monthly_operating_income (take k (s_monthly_df result)))
               + s_monthly_operating_income (s_monthly_df result ! k)"
    and "\<forall>k<length (s_monthly_df result).
           s_dividend_tax (s_monthly_df result ! k)
             = (if Suc k mod 12 = 0
                then sum_list (map s_monthly_dividend (take 12 (drop (k - 11) (s_monthly_df result))))
                     * p_tax_bracket params
                else 0)"
    and "ss_total_dividend_tax (s_summary result)
           = sum_list (map s_dividend_tax (s_monthly_df result))"
    and "\<forall>k<length (s_monthly_df result).
           s_cumulative_cost (s_monthly_df result ! k)
             = sum_list (map s_dividend_tax (take (Suc k) (s_monthly_df result)))"
proof -
  let ?init = "\<lparr>sst_portfolio_value = p_initial_investment params, sst_cumulative_dividends = 0,
                sst_cumulative_dividend_tax = 0, sst_annual_dividends = 0,
                sst_monthly_data = []\<rparr>"
  from simulate_stock_investment_loop[OF assms] obtain st where
    st: "stock_loop params costs [1..p_years params * 12] ?init = Inr st"
    and df: "s_monthly_df result = sst_monthly_data st"
    and total: "ss_total_dividend_tax (s_summary result) = sst_cumulative_dividend_tax st"
    by blast
  show "\<forall>k<length (s_monthly_df result).
           s_cumulative_operating_income (s_monthly_df result ! k)
             = sum_list (map s_monthly_operating_income (take k (s_monthly_df result)))
               + s_monthly_operating_income (s_monthly_df result ! k)"
    unfolding df by (rule stock_loop_running_total[OF st]) simp
  have cons: "\<forall>j<length [1..p_years params * 12].
      [1..p_years params * 12] ! j = int (length (sst_monthly_data ?init)) + 1 + int j"
    by (simp add: nth_upto)
  show "\<forall>k<length (s_monthly_df result).
           s_dividend_tax (s_monthly_df result ! k)
             = (if Suc k mod 12 = 0
                then sum_list (map s_monthly_dividend (take 12 (drop (k - 11) (s_monthly_df result))))
                     * p_tax_bracket params
                else 0)"
    unfolding df by (rule stock_loop_annual_tax[OF st cons]) simp_all
  have "sst_cumulative_dividend_tax st = sum_list (map s_dividend_tax (sst_monthly_data st))
       \<and> (\<forall>k<length (sst_monthly_data st). s_cumulative_cost (sst_monthly_data st ! k)
              = sum_list (map s_dividend_tax (take (Suc k) (sst_monthly_data st))))"
    by (rule stock_loop_cumulative_tax[OF st]) simp_all
  then show "ss_total_dividend_tax (s_summary result)
           = sum_list (map s_dividend_tax (s_monthly_df result))"
    and "\<forall>k<length (s_monthly_df result).
           s_cumulative_cost (s_monthly_df result ! k)
             = sum_list (map s_dividend_tax (take (Suc k) (s_monthly_df result)))"
    by (simp_all add: df total)
qed

section \<open>Cumulative fields\<close>




section \<open>The stock simulator of simulation.py\<close>

lemma simulation_py_stock_month_row:
  "lsst_monthly_data (simulation_py_stock_month params h r ri month st)
     = lsst_monthly_data st
       @ [last (lsst_monthly_data (simulation_py_stock_month params h r ri month st))]"
  "ls_month (last (lsst_monthly_data (simulation_py_stock_month params h r ri month st))) = month"
  "ls_dividend_tax (last (lsst_monthly_data (simulation_py_stock_month params h r ri month st)))
     = ls_monthly_dividend
         (last (lsst_monthly_data (simulation_py_stock_month params h r ri month st)))
       * (case p_dividend_tax_rate params of None \<Rightarrow> 15 / 100 | Some x \<Rightarrow> x)"
  by (simp_all add: simulation_py_stock_month_def Let_def)

lemma simulation_py_stock_loop_rows:
  assumes "\<forall>row\<in>set (lsst_monthly_data st).
             ls_dividend_tax row
               = ls_monthly_dividend row
                 * (case p_dividend_tax_rate params of None \<Rightarrow> 15 / 100 | Some x \<Rightarrow> x)"
  shows "\<forall>row\<in>set (lsst_monthly_data (simulation_py_stock_loop params h r ri ms st)).
             ls_dividend_tax row
               = ls_monthly_dividend row
                 * (case p_dividend_tax_rate params of None \<Rightarrow> 15 / 100 | Some x \<Rightarrow> x)"
  using assms
proof (induction ms arbitrary: st)
  case Nil
  then show ?case by simp
next
  case (Cons month rest)
  let ?st1 = "simulation_py_stock_month params h r ri month st"
  have "set (lsst_monthly_data ?st1) = set (lsst_monthly_data st) \<union> {last (lsst_monthly_data ?st1)}"
    by (subst simulation_py_stock_month_row(1)) simp
  with Cons.prems simulation_py_stock_month_row(3)[of params h r ri month st]
  have "\<forall>row\<in>set (lsst_monthly_data ?st1).
             ls_dividend_tax row
               = ls_monthly_dividend row
                 * (case p_dividend_tax_rate params of None \<Rightarrow> 15 / 100 | Some x \<Rightarrow> x)"
    by auto
  from Cons.IH[OF this] show ?case by simp
qed

lemma simulation_py_stock_loop_append:
  "\<exists>rows. lsst_monthly_data (simulation_py_stock_loop params h r ri ms st)
            = lsst_monthly_data st @ rows \<and> length rows = length ms"
proof (induction ms arbitrary: st)
  case Nil
  then show ?case by simp
next
  case (Cons month rest)
  let ?st1 = "simulation_py_stock_month params h r ri month st"
  from Cons.IH[of ?st1] obtain rows where
    "lsst_monthly_data (simulation_py_stock_loop params h r ri rest ?st1)
       = lsst_monthly_data ?st1 @ rows" "length rows = length rest" by blast
  moreover have "lsst_monthly_data ?st1 = lsst_monthly_data st @ [last (lsst_monthly_data ?st1)]"
    by (rule simulation_py_stock_month_row(1))
  ultimately have "lsst_monthly_data (simulation_py_stock_loop params h r ri (month # rest) st)
       = lsst_monthly_data st @ (last (lsst_monthly_data ?st1) # rows)
     \<and> length (last (lsst_monthly_data ?st1) # rows) = length (month # rest)"
    by simp
  then show ?case by blast
qed

lemma simulation_py_stock_rows:
  assumes "simulation_py_simulate_stock_investment params h r ri = Inr result"
  shows "ls_monthly_df result
           = lsst_monthly_data (simulation_py_stock_loop params h r ri [1..p_years params * 12]
               \<lparr>lsst_portfolio_value = p_initial_investment params, lsst_cumulative_rent = 0,
                lsst_cumulative_operating_income = 0, lsst_monthly_data = []\<rparr>)"
  using assms
  by (auto simp: simulation_py_simulate_stock_investment_def Let_def split: if_splits)

lemma simulation_py_stock_first_row:
  assumes "1 \<le> p_years params"
  shows "\<exists>result. simulation_py_simulate_stock_investment params h r ri = Inr result
           \<and> ls_monthly_df result ! 0
               = last (lsst_monthly_data (simulation_py_stock_month params h r ri 1
                   \<lparr>lsst_portfolio_value = p_initial_investment params, lsst_cumulative_rent = 0,
                    lsst_cumulative_operating_income = 0, lsst_monthly_data = []\<rparr>))"
proof -
  let ?init = "\<lparr>lsst_portfolio_value = p_initial_investment params, lsst_cumulative_rent = 0,
                lsst_cumulative_operating_income = 0, lsst_monthly_data = []\<rparr>"
  let ?st1 = "simulation_py_stock_month params h r ri 1 ?init"
  let ?rest = "[2..p_years params * 12]"
  from assms have ms: "[1..p_years params * 12] = 1 # ?rest" by (simp add: upto_rec1)
  from simulation_py_stock_loop_append[of params h r ri ?rest ?st1] obtain rows where
    rows: "lsst_monthly_data (simulation_py_stock_loop params h r ri ?rest ?st1)
             = lsst_monthly_data ?st1 @ rows" by blast
  have st1: "lsst_monthly_data ?st1 = [last (lsst_monthly_data ?st1)]"
    using simulation_py_stock_month_row(1)[of params h r ri 1 ?init] by simp
  have df: "lsst_monthly_data (simulation_py_stock_loop params h r ri [1..p_years params * 12] ?init)
        = last (lsst_monthly_data ?st1) # rows"
    by (simp only: ms simulation_py_stock_loop.simps rows) (subst st1, simp)
  then have ne: "lsst_monthly_data
      (simulation_py_stock_loop params h r ri [1..p_years params * 12] ?init) \<noteq> []" by simp
  define result where "result = projr (simulation_py_simulate_stock_investment params h r ri)"
  from ne have ret: "simulation_py_simulate_stock_investment params h r ri = Inr result"
    by (simp add: result_def simulation_py_simulate_stock_investment_def Let_def)
  from simulation_py_stock_rows[OF ret] df
  have "ls_monthly_df result ! 0 = last (lsst_monthly_data ?st1)" by simp
  with ret show ?thesis by blast
qed

text \<open>
  C6 (amended).  In \<open>simulate_rent_and_invest\<close> and in \<open>simulate_stock_investment\<close> of
  rental\_simulation.py a dividend tax is charged only in the 12th month of each
  simulated year: in that month it is the year's accumulated dividends (the accumulator
  \<open>annual_dividends\<close>, which then holds the 12 monthly dividends of the year) times the
  tax bracket, it is added to \<open>cumulative_dividend_tax\<close> and the accumulator is reset to
  0; in every other month the dividend tax recorded is 0 and \<open>cumulative_dividend_tax\<close>
  is unchanged.  \<open>simulate_stock_investment\<close> of simulation.py has no annual event: every
  month it records \<open>monthly_dividend * dividend_tax_rate\<close>.
\<close>

theorem dividend_tax_annual_event:
  "(\<forall>st'. rent_and_invest_month params costs month st = Inr st' \<longrightarrow>
       ri_dividend_tax (last (st_monthly_data st'))
         = (if (month - 1) mod 12 + 1 = 12
            then (st_annual_dividends st + ri_monthly_dividend (last (st_monthly_data st')))
                 * p_tax_bracket params
            else 0)
     \<and> st_cumulative_dividend_tax st'
         = st_cumulative_dividend_tax st + ri_dividend_tax (last (st_monthly_data st'))
     \<and> st_annual_dividends st'
         = (if (month - 1) mod 12 + 1 = 12 then 0
            else st_annual_dividends st + ri_monthly_dividend (last (st_monthly_data st'))))
   \<and> (\<forall>sst'. stock_month params costs month sst = Inr sst' \<longrightarrow>
       s_dividend_tax (last (sst_monthly_data sst'))
         = (if (month - 1) mod 12 + 1 = 12
            then (sst_annual_dividends sst + s_monthly_dividend (last (sst_monthly_data sst')))
                 * p_tax_bracket params
            else 0)
     \<and> sst_cumulative_dividend_tax sst'
         = sst_cumulative_dividend_tax sst + s_dividend_tax (last (sst_monthly_data sst'))
     \<and> sst_annual_dividends sst'
         = (if (month - 1) mod 12 + 1 = 12 then 0
            else sst_annual_dividends sst + s_monthly_dividend (last (sst_monthly_data sst'))))
   \<and> (\<forall>result k. simulate_rent_and_invest params costs = Inr result
         \<and> k < length (ri_monthly_df result) \<longrightarrow>
       ri_dividend_tax (ri_monthly_df result ! k)
         = (if Suc k mod 12 = 0
            then sum_list (map ri_monthly_dividend
                   (take 12 (drop (k - 11) (ri_monthly_df result)))) * p_tax_bracket params
            else 0)
     \<and> ri_cumulative_dividend_tax (ri_monthly_df result ! k)
         = sum_list (map ri_dividend_tax (take (Suc k) (ri_monthly_df result))))
   \<and> (\<forall>result k. simulate_stock_investment params costs = Inr result
         \<and> k < length (s_monthly_df result) \<longrightarrow>
       s_dividend_tax (s_monthly_df result ! k)
         = (if Suc k mod 12 = 0
            then sum_list (map s_monthly_dividend
                   (take 12 (drop (k - 11) (s_monthly_df result)))) * p_tax_bracket params
            else 0)
     \<and> s_cumulative_cost (s_monthly_df result ! k)
         = sum_list (map s_dividend_tax (take (Suc k) (s_monthly_df result))))
   \<and> (\<forall>result row. simulation_py_simulate_stock_investment params h r ri = Inr result
         \<and> row \<in> set (ls_monthly_df result) \<longrightarrow>
       ls_dividend_tax row
         = ls_monthly_dividend row
           * (case p_dividend_tax_rate params of None \<Rightarrow> 15 / 100 | Some x \<Rightarrow> x))"
proof -
  have a: "ri_dividend_tax (last (st_monthly_data st'))
         = (if (month - 1) mod 12 + 1 = 12
            then (st_annual_dividends st + ri_monthly_dividend (last (st_monthly_data st')))
                 * p_tax_bracket params
            else 0)
     \<and> st_cumulative_dividend_tax st'
         = st_cumulative_dividend_tax st + ri_dividend_tax (last (st_monthly_data st'))
     \<and> st_annual_dividends st'
         = (if (month - 1) mod 12 + 1 = 12 then 0
            else st_annual_dividends st + ri_monthly_dividend (last (st_monthly_data st')))"
    if "rent_and_invest_month params costs month st = Inr st'" for st'
    using rent_and_invest_month_last(5,6,7)[OF that] by (simp split: if_splits)
  have b: "s_dividend_tax (last (sst_monthly_data sst'))
         = (if (month - 1) mod 12 + 1 = 12
            then (sst_annual_dividends sst + s_monthly_dividend (last (sst_monthly_data sst')))
                 * p_tax_bracket params
            else 0)
     \<and> sst_cumulative_dividend_tax sst'
         = sst_cumulative_dividend_tax sst + s_dividend_tax (last (sst_monthly_data sst'))
     \<and> sst_annual_dividends sst'
         = (if (month - 1) mod 12 + 1 = 12 then 0
            else sst_annual_dividends sst + s_monthly_dividend (last (sst_monthly_data sst')))"
    if "stock_month params costs month sst = Inr sst'" for sst'
    using stock_month_last(5,6,7)[OF that] by (simp split: if_splits)
  have c: "ls_dividend_tax row
         = ls_monthly_dividend row
           * (case p_dividend_tax_rate params of None \<Rightarrow> 15 / 100 | Some x \<Rightarrow> x)"
    if "simulation_py_simulate_stock_investment params h r ri = Inr result"
      "row \<in> set (ls_monthly_df result)" for result row
    using simulation_py_stock_loop_rows[of
        "\<lparr>lsst_portfolio_value = p_initial_investment params, lsst_cumulative_rent = 0,
          lsst_cumulative_operating_income = 0, lsst_monthly_data = []\<rparr>" params h r ri
        "[1..p_years params * 12]"] that
    by (simp add: simulation_py_stock_rows[OF that(1)])
  from a b c rent_and_invest_rows(2,4)[of params costs] stock_rows(2,4)[of params costs]
  show ?thesis by blast
qed

theorem dividend_tax_annual_event_witness:
  "\<exists>result. simulate_rent_and_invest (example_params\<lparr>p_years := 1\<rparr>) (replicate 12 3000)
               = Inr result
     \<and> length (ri_monthly_df result) = 12
     \<and> ri_dividend_tax (ri_monthly_df result ! 0) = 0
     \<and> ri_dividend_tax (ri_monthly_df result ! 11)
         = sum_list (map ri_monthly_dividend (ri_monthly_df result)) * (25 / 100)"
proof -
  let ?p = "example_params\<lparr>p_years := 1\<rparr>"
  have "1 \<le> p_years ?p" "p_years ?p * 12 \<le> int (length (replicate 12 (3000::real)))"
    by (simp_all add: example_params_def)
  from simulate_rent_and_invest_returns[OF this] obtain result where
    r: "simulate_rent_and_invest ?p (replicate 12 3000) = Inr result"
    and len: "int (length (ri_monthly_df result)) = p_years ?p * 12" by blast
  from len have l: "length (ri_monthly_df result) = 12" by (simp add: example_params_def)
  have tb: "p_tax_bracket ?p = 25 / 100" by (simp add: example_params_def)
  from dividend_tax_annual_event[where params = ?p and costs = "replicate 12 3000"] r
  have rows: "\<forall>k<length (ri_monthly_df result).
       ri_dividend_tax (ri_monthly_df result ! k)
         = (if Suc k mod 12 = 0
            then sum_list (map ri_monthly_dividend
                   (take 12 (drop (k - 11) (ri_monthly_df result)))) * p_tax_bracket ?p
            else 0)"
    by blast
  from rows l have "ri_dividend_tax (ri_monthly_df result ! 0) = 0" by simp
  moreover from rows l tb have "ri_dividend_tax (ri_monthly_df result ! 11)
         = sum_list (map ri_monthly_dividend (ri_monthly_df result)) * (25 / 100)" by simp
  ultimately show ?thesis using r l by blast
qed

text \<open>
  C6 as stated fails for \<open>simulate_stock_investment\<close> of simulation.py: in the one-year
  run of the scenario with a fixed contribution of 500, the row of month 1 (not a 12th
  month) records the dividend tax 2795 / 96, about 29.11, which is 15 percent of that
  month's dividend.
\<close>

theorem simulation_py_dividend_tax_counterexample:
  "ls_month (ls_monthly_df (projr (simulation_py_simulate_stock_investment
       (example_params\<lparr>p_years := 1\<rparr>) None None None)) ! 0) = 1
   \<and> ls_dividend_tax (ls_monthly_df (projr (simulation_py_simulate_stock_investment
       (example_params\<lparr>p_years := 1\<rparr>) None None None)) ! 0) = 2795 / 96"
proof -
  let ?p = "example_params\<lparr>p_years := 1\<rparr>"
  have "1 \<le> p_years ?p" by (simp add: example_params_def)
  from simulation_py_stock_first_row[OF this, of None None None] obtain result where
    r: "simulation_py_simulate_stock_investment ?p None None None = Inr result"
    and row: "ls_monthly_df result ! 0
               = last (lsst_monthly_data (simulation_py_stock_month ?p None None None 1
                   \<lparr>lsst_portfolio_value = p_initial_investment ?p, lsst_cumulative_rent = 0,
                    lsst_cumulative_operating_income = 0, lsst_monthly_data = []\<rparr>))"
    by blast
  have "ls_month (ls_monthly_df result ! 0) = 1"
    and "ls_dividend_tax (ls_monthly_df result ! 0) = 2795 / 96"
    by (simp_all add: row simulation_py_stock_month_def Let_def example_params_def)
  then show ?thesis by (simp add: r)
qed

end
